theory Spec2Isabelle
  imports Main "HOL-Library.List_Lexorder" "HOL-Library.Multiset"
begin

section \<open>The PDF ingestion script \<^verbatim>\<open>scripts/embed_guidelines.py\<close>\<close>

text \<open>
  The script is one linear pipeline: create the persist directory, scan the PDF folder,
  extract the pages of every PDF (PyPDF first, PDFMiner as fallback), aggregate the pages,
  split them into chunks, embed and persist the chunks. Its own code is the control flow
  between library calls. The library calls (\<^verbatim>\<open>Path.glob\<close>, the two loaders, the text
  splitter) are parameters of the model, collected in an environment; their results are
  values, so a call with the same arguments gives the same result. A library call inside a
  \<^verbatim>\<open>try\<close> block may raise and is caught; a call outside any \<^verbatim>\<open>try\<close> block may raise too,
  and then the exception ends the run. Everything the script
  does to the outside (directory creation, loader calls, printed lines, the write to the
  store) is recorded in an event trace and in an explicit filesystem state.
\<close>

subsection \<open>Data\<close>

text \<open>
  A Python \<^verbatim>\<open>str\<close> is a sequence of code points; \<^verbatim>\<open>len\<close> counts them. Strings are
  compared lexicographically by code point, which is the order of
  \<^theory_text>\<open>HOL-Library.List_Lexorder\<close> on \<open>nat list\<close>.
\<close>

type_synonym pystr = "nat list"

text \<open>A text written as an Isabelle string, read as its code points.\<close>

definition codepoints :: "string \<Rightarrow> pystr" where
  "codepoints s = map of_char s"

text \<open>
  The files of \<^verbatim>\<open>PDF_DIR\<close> all have the same parent, so a path is identified by its
  name, and \<^verbatim>\<open>sorted\<close> on the paths is the sort of the names (POSIX paths compare
  their parts as strings).
\<close>

type_synonym path = pystr

text \<open>
  A raised \<^verbatim>\<open>Exception\<close>, with the text \<^verbatim>\<open>str(e)\<close> that the warning prints. The
  \<^verbatim>\<open>except Exception\<close> clauses of lines 22 and 28 catch these; a \<^verbatim>\<open>KeyboardInterrupt\<close>
  or another exception outside the class \<^verbatim>\<open>Exception\<close> is not a result of a loader here.
\<close>

datatype exn = Exception pystr

text \<open>
  What \<^verbatim>\<open>mkdir(parents=True, exist_ok=True)\<close> raises when the path exists and is not a
  directory.
\<close>

definition FileExistsError :: exn where
  "FileExistsError = Exception (codepoints ''[Errno 17] File exists'')"

text \<open>
  A langchain \<^verbatim>\<open>Document\<close>: the text and the metadata the loader attached (source file,
  page index); the script never reads the metadata, so its type is left open.
\<close>

record 'm document =
  page_content :: pystr
  metadata :: 'm

datatype event =
    Mkdir_PERSIST_DIR
  | Print_looking
  | Glob_pdf
  | Call_PyPDFLoader path
  | Warn_PyPDF path exn
  | Call_PDFMinerLoader path
  | Warn_PDFMiner path exn
  | Print_skip path
  | Print_ok path nat nat
  | Call_RecursiveCharacterTextSplitter nat nat
  | Call_split_documents nat nat
  | Call_HuggingFaceEmbeddings
  | Call_from_documents nat
  | Call_persist
  | Print_embedded nat nat

text \<open>
  The environment of one run: what \<^verbatim>\<open>PDF_DIR.glob("*.pdf")\<close> yields (in the order of the
  directory enumeration), what each loader does on a path (raise an \<^verbatim>\<open>Exception\<close> or
  return its pages), and the library splitter, applied to chunk size, chunk overlap and the
  documents. The statements of lines 11, 13, 14, 44, 45 and 49 to 52 call into libraries
  outside any \<^verbatim>\<open>try\<close> block: \<open>raises env l\<close> is the exception that the call of line \<open>l\<close>
  raises in this run, if it raises; the other fields give the results of the calls that
  return.
\<close>

record 'm env =
  glob_pdf :: "path list"
  PyPDFLoader_load :: "path \<Rightarrow> exn + 'm document list"
  PDFMinerLoader_load :: "path \<Rightarrow> exn + 'm document list"
  split_documents :: "nat \<Rightarrow> nat \<Rightarrow> 'm document list \<Rightarrow> 'm document list"
  raises :: "nat \<Rightarrow> exn option"

subsection \<open>\<^verbatim>\<open>str.strip\<close> and the two character counts\<close>

text \<open>The code points Python's \<^verbatim>\<open>str.isspace\<close> and \<^verbatim>\<open>str.strip()\<close> treat as whitespace.\<close>

definition isspace :: "nat \<Rightarrow> bool" where
  "isspace c \<longleftrightarrow>
     (9 \<le> c \<and> c \<le> 13) \<or> (28 \<le> c \<and> c \<le> 32) \<or> c = 133 \<or> c = 160 \<or> c = 5760 \<or>
     (8192 \<le> c \<and> c \<le> 8202) \<or> c = 8232 \<or> c = 8233 \<or> c = 8239 \<or> c = 8287 \<or> c = 12288"

definition strip :: "pystr \<Rightarrow> pystr" where
  "strip s = rev (dropWhile isspace (rev (dropWhile isspace s)))"

text \<open>Line 25: \<^verbatim>\<open>sum(len(d.page_content.strip()) for d in pages)\<close>.\<close>

definition stripped_chars :: "'m document list \<Rightarrow> nat" where
  "stripped_chars pages = sum_list (map (\<lambda>d. length (strip (page_content d))) pages)"

text \<open>Line 30: \<^verbatim>\<open>sum(len(d.page_content) for d in pages)\<close>.\<close>

definition total_chars :: "'m document list \<Rightarrow> nat" where
  "total_chars pages = sum_list (map (\<lambda>d. length (page_content d)) pages)"

subsection \<open>\<^verbatim>\<open>extract_pages\<close>\<close>

text \<open>
  Lines 19 to 23: \<^verbatim>\<open>pages = []\<close>, then the primary loader inside \<^verbatim>\<open>try\<close>; an exception
  leaves \<^verbatim>\<open>pages\<close> empty and prints a warning.
\<close>

definition try_PyPDF :: "'m env \<Rightarrow> path \<Rightarrow> 'm document list \<times> event list" where
  "try_PyPDF env p =
     (case PyPDFLoader_load env p of
        Inr pages \<Rightarrow> (pages, [Call_PyPDFLoader p])
      | Inl e \<Rightarrow> ([], [Call_PyPDFLoader p, Warn_PyPDF p e]))"

text \<open>
  Lines 25 to 29: when the stripped character total is zero the fallback loader runs inside
  \<^verbatim>\<open>try\<close>; an exception prints a warning and leaves \<^verbatim>\<open>pages\<close> as it was.
\<close>

definition try_PDFMiner :: "'m env \<Rightarrow> path \<Rightarrow> 'm document list \<Rightarrow> 'm document list \<times> event list" where
  "try_PDFMiner env p pages =
     (if stripped_chars pages = 0 then
        (case PDFMinerLoader_load env p of
           Inr pages' \<Rightarrow> (pages', [Call_PDFMinerLoader p])
         | Inl e \<Rightarrow> (pages, [Call_PDFMinerLoader p, Warn_PDFMiner p e]))
      else (pages, []))"

text \<open>The value of \<^verbatim>\<open>pages\<close> when line 30 is reached.\<close>

definition final_pages :: "'m env \<Rightarrow> path \<Rightarrow> 'm document list" where
  "final_pages env p = fst (try_PDFMiner env p (fst (try_PyPDF env p)))"

text \<open>Lines 18 to 35: the returned page list and the events of the call.\<close>

definition extract_pages :: "'m env \<Rightarrow> path \<Rightarrow> 'm document list \<times> event list" where
  "extract_pages env p =
     (let (pages0, t1) = try_PyPDF env p;
          (pages, t2) = try_PDFMiner env p pages0;
          total = total_chars pages
      in if total = 0 then ([], t1 @ t2 @ [Print_skip p])
         else (pages, t1 @ t2 @ [Print_ok p (length pages) total]))"

subsection \<open>The aggregation loop\<close>

text \<open>
  Lines 37 to 39: \<^verbatim>\<open>for f in pdf_files: all_docs.extend(extract_pages(f))\<close>, threading
  the list \<^verbatim>\<open>all_docs\<close> and the trace.
\<close>

fun extend_all ::
  "'m env \<Rightarrow> path list \<Rightarrow> 'm document list \<times> event list \<Rightarrow> 'm document list \<times> event list" where
  "extend_all env [] acc = acc"
| "extend_all env (f # fs) (all_docs, tr) =
     (let (pages, t) = extract_pages env f
      in extend_all env fs (all_docs @ pages, tr @ t))"

subsection \<open>The script\<close>

text \<open>
  The part of the filesystem the script writes: what is at the path \<^verbatim>\<open>PERSIST_DIR\<close>
  (nothing, a directory, or something that is not a directory), and the records of the
  vector store in it (one per chunk handed to \<^verbatim>\<open>Chroma.from_documents\<close>; the embedding
  vector is a function of the chunk text and is not modelled).
\<close>

datatype node = Absent | Directory | Regular_file

record 'm fs =
  persist_dir :: node
  persisted :: "'m document list"

text \<open>
  Line 11, \<^verbatim>\<open>PERSIST_DIR.mkdir(parents=True, exist_ok=True)\<close>: raises
  \<^verbatim>\<open>FileExistsError\<close> when the path exists and is not a directory; otherwise it may fail
  with another error of the operating system; when it returns, the directory exists.
\<close>

definition mkdir_parents_exist_ok :: "'m env \<Rightarrow> 'm fs \<Rightarrow> exn + 'm fs" where
  "mkdir_parents_exist_ok env fs =
     (if persist_dir fs = Regular_file then Inl FileExistsError
      else case raises env 11 of
             Some e \<Rightarrow> Inl e
           | None \<Rightarrow> Inr (fs\<lparr>persist_dir := Directory\<rparr>))"

text \<open>
  The three \<^verbatim>\<open>raise SystemExit(message)\<close> of lines 16, 42 and 47, an exception that
  nothing catches, and the end of the script.
\<close>

datatype exit_message = No_PDFs_found | No_text_extracted | Zero_chunks

datatype 'm outcome = SystemExit exit_message | Uncaught exn | Completed "'m document list"

text \<open>
  The exit status of the process: \<^verbatim>\<open>SystemExit\<close> with a string argument prints the string
  and exits with status 1; an uncaught exception prints its traceback and exits with
  status 1; running off the end of the script exits with status 0.
\<close>

fun exit_status :: "'m outcome \<Rightarrow> nat" where
  "exit_status (SystemExit _) = 1"
| "exit_status (Uncaught _) = 1"
| "exit_status (Completed _) = 0"

record 'm run =
  outcome :: "'m outcome"
  fs_after :: "'m fs"
  trace :: "event list"

text \<open>
  Lines 44 to 52, reached with the aggregated pages: the splitter, the \<^verbatim>\<open>SystemExit\<close> on
  zero chunks, the embedding model, the store and the last printed line. The records are in
  the store once \<^verbatim>\<open>db.persist()\<close> of line 51 has returned.
\<close>

definition split_and_persist ::
  "'m env \<Rightarrow> 'm fs \<Rightarrow> 'm document list \<Rightarrow> event list \<Rightarrow> 'm run" where
  "split_and_persist env fs1 all_docs t1 =
     (let t44 = t1 @ [Call_RecursiveCharacterTextSplitter 1000 150];
          t45 = t44 @ [Call_split_documents 1000 150]
      in case raises env 44 of
        Some e \<Rightarrow> \<lparr>outcome = Uncaught e, fs_after = fs1, trace = t44\<rparr>
      | None \<Rightarrow>
      (case raises env 45 of
        Some e \<Rightarrow> \<lparr>outcome = Uncaught e, fs_after = fs1, trace = t45\<rparr>
      | None \<Rightarrow>
      (let chunks = split_documents env 1000 150 all_docs;
           t49 = t45 @ [Call_HuggingFaceEmbeddings];
           t50 = t49 @ [Call_from_documents (length chunks)];
           t51 = t50 @ [Call_persist];
           t52 = t51 @ [Print_embedded (length chunks) (length all_docs)];
           fs2 = fs1\<lparr>persisted := persisted fs1 @ chunks\<rparr>
       in if chunks = [] then
            \<lparr>outcome = SystemExit Zero_chunks, fs_after = fs1, trace = t45\<rparr>
          else case raises env 49 of
            Some e \<Rightarrow> \<lparr>outcome = Uncaught e, fs_after = fs1, trace = t49\<rparr>
          | None \<Rightarrow>
          (case raises env 50 of
            Some e \<Rightarrow> \<lparr>outcome = Uncaught e, fs_after = fs1, trace = t50\<rparr>
          | None \<Rightarrow>
          (case raises env 51 of
            Some e \<Rightarrow> \<lparr>outcome = Uncaught e, fs_after = fs1, trace = t51\<rparr>
          | None \<Rightarrow>
          (case raises env 52 of
            Some e \<Rightarrow> \<lparr>outcome = Uncaught e, fs_after = fs2, trace = t52\<rparr>
          | None \<Rightarrow> \<lparr>outcome = Completed chunks, fs_after = fs2, trace = t52\<rparr>))))))"

text \<open>Lines 8 to 52: the whole run, from the filesystem it starts in.\<close>

definition embed_guidelines :: "'m env \<Rightarrow> 'm fs \<Rightarrow> 'm run" where
  "embed_guidelines env fs0 =
     (case mkdir_parents_exist_ok env fs0 of
        Inl e \<Rightarrow> \<lparr>outcome = Uncaught e, fs_after = fs0, trace = [Mkdir_PERSIST_DIR]\<rparr>
      | Inr fs1 \<Rightarrow>
      (case raises env 13 of
        Some e \<Rightarrow>
          \<lparr>outcome = Uncaught e, fs_after = fs1, trace = [Mkdir_PERSIST_DIR, Print_looking]\<rparr>
      | None \<Rightarrow>
      (let t0 = [Mkdir_PERSIST_DIR, Print_looking, Glob_pdf]
       in case raises env 14 of
         Some e \<Rightarrow> \<lparr>outcome = Uncaught e, fs_after = fs1, trace = t0\<rparr>
       | None \<Rightarrow>
       (let pdf_files = sort (glob_pdf env)
        in if pdf_files = [] then
             \<lparr>outcome = SystemExit No_PDFs_found, fs_after = fs1, trace = t0\<rparr>
           else
             let (all_docs, t1) = extend_all env pdf_files ([], t0)
             in if all_docs = [] then
                  \<lparr>outcome = SystemExit No_text_extracted, fs_after = fs1, trace = t1\<rparr>
                else split_and_persist env fs1 all_docs t1))))"

text \<open>
  Whether the run reaches the extraction loop, that is, whether the calls of lines 11, 13
  and 14 return; and whether the calls of the given lines return.
\<close>

definition scan_returns :: "'m env \<Rightarrow> 'm fs \<Rightarrow> bool" where
  "scan_returns env fs0 \<longleftrightarrow>
     persist_dir fs0 \<noteq> Regular_file \<and> raises env 11 = None \<and> raises env 13 = None \<and>
     raises env 14 = None"

definition lines_return :: "'m env \<Rightarrow> nat list \<Rightarrow> bool" where
  "lines_return env ls \<longleftrightarrow> list_all (\<lambda>l. raises env l = None) ls"

text \<open>The values of the script's variables \<^verbatim>\<open>pdf_files\<close>, \<^verbatim>\<open>all_docs\<close> and \<^verbatim>\<open>chunks\<close>.\<close>

definition pdf_files :: "'m env \<Rightarrow> path list" where
  "pdf_files env = sort (glob_pdf env)"

definition all_docs :: "'m env \<Rightarrow> 'm document list" where
  "all_docs env = fst (extend_all env (pdf_files env) ([], []))"

definition chunks :: "'m env \<Rightarrow> 'm document list" where
  "chunks env = split_documents env 1000 150 (all_docs env)"

definition is_loader_call :: "event \<Rightarrow> bool" where
  "is_loader_call e =
     (case e of Call_PyPDFLoader _ \<Rightarrow> True | Call_PDFMinerLoader _ \<Rightarrow> True | _ \<Rightarrow> False)"

subsection \<open>Example environments\<close>

text \<open>Concrete inputs on which the theorems below are instantiated.\<close>

definition page :: "string \<Rightarrow> path \<Rightarrow> nat \<Rightarrow> (path \<times> nat) document" where
  "page text src n = \<lparr>page_content = codepoints text, metadata = (src, n)\<rparr>"

text \<open>
  An instance of the splitter parameter with the shape of the library's
  \<^verbatim>\<open>split_documents\<close>: every page is split on its own and keeps its metadata, a chunk has
  at most \<open>c\<close> characters, consecutive chunks of a page overlap by \<open>ov\<close> characters, chunks
  are stripped and blank ones dropped. On a page shorter than \<open>c\<close> it returns the stripped
  page as the only chunk, or nothing when the page is blank; a longer page is cut by
  position.
\<close>

definition windows :: "nat \<Rightarrow> nat \<Rightarrow> pystr \<Rightarrow> pystr list" where
  "windows c ov s =
     (if length s \<le> c \<or> c \<le> ov then [s]
      else map (\<lambda>i. take c (drop (i * (c - ov)) s))
             [0 ..< Suc ((length s - ov - 1) div (c - ov))])"

definition reference_split_documents ::
  "nat \<Rightarrow> nat \<Rightarrow> 'm document list \<Rightarrow> 'm document list" where
  "reference_split_documents c ov docs =
     concat (map (\<lambda>d. map (\<lambda>t. d\<lparr>page_content := t\<rparr>)
                         (filter (\<lambda>t. t \<noteq> []) (map strip (windows c ov (page_content d)))))
                 docs)"

text \<open>
  Six files: \<^verbatim>\<open>a.pdf\<close> has text for PyPDF; \<^verbatim>\<open>b.pdf\<close> gives PyPDF one page of two
  spaces and PDFMiner a page of text; both loaders raise on \<^verbatim>\<open>c.pdf\<close>; \<^verbatim>\<open>d.pdf\<close> gives
  PyPDF no page and PDFMiner one empty page; \<^verbatim>\<open>e.pdf\<close> gives PyPDF one page of one space
  and PDFMiner raises; \<^verbatim>\<open>f.pdf\<close> gives PyPDF one page of one space and PDFMiner one
  empty page. The directory enumeration yields the first four, unsorted, and no call
  outside the \<^verbatim>\<open>try\<close> blocks raises.
\<close>

definition example_env :: "(path \<times> nat) env" where
  "example_env =
     \<lparr>glob_pdf = [codepoints ''c.pdf'', codepoints ''a.pdf'', codepoints ''d.pdf'',
                  codepoints ''b.pdf''],
      PyPDFLoader_load = (\<lambda>p.
        if p = codepoints ''a.pdf'' then Inr [page ''Hello world'' p 0, page [] p 1]
        else if p = codepoints ''b.pdf'' then Inr [page ''  '' p 0]
        else if p = codepoints ''c.pdf'' then Inl (Exception (codepoints ''bad xref''))
        else if p = codepoints ''e.pdf'' then Inr [page '' '' p 0]
        else if p = codepoints ''f.pdf'' then Inr [page '' '' p 0]
        else Inr []),
      PDFMinerLoader_load = (\<lambda>p.
        if p = codepoints ''b.pdf'' then Inr [page ''Scanned text'' p 0]
        else if p = codepoints ''d.pdf'' then Inr [page [] p 0]
        else if p = codepoints ''f.pdf'' then Inr [page [] p 0]
        else Inl (Exception (codepoints ''no /Root''))),
      split_documents = reference_split_documents,
      raises = (\<lambda>l. None)\<rparr>"

definition empty_fs :: "(path \<times> nat) fs" where
  "empty_fs = \<lparr>persist_dir = Absent, persisted = []\<rparr>"

text \<open>A filesystem in which the path \<^verbatim>\<open>PERSIST_DIR\<close> is a regular file.\<close>

definition file_fs :: "(path \<times> nat) fs" where
  "file_fs = \<lparr>persist_dir = Regular_file, persisted = []\<rparr>"

text \<open>
  Two directories with one PDF each, of the same text in the same number of characters:
  in the first the loader returns it as one page, in the second as two pages.
\<close>

definition one_page_env :: "(path \<times> nat) env" where
  "one_page_env =
     \<lparr>glob_pdf = [codepoints ''x.pdf''],
      PyPDFLoader_load = (\<lambda>p. Inr [page ''Hello world'' p 0]),
      PDFMinerLoader_load = (\<lambda>p. Inl (Exception (codepoints ''not called''))),
      split_documents = reference_split_documents,
      raises = (\<lambda>l. None)\<rparr>"

definition two_page_env :: "(path \<times> nat) env" where
  "two_page_env =
     \<lparr>glob_pdf = [codepoints ''x.pdf''],
      PyPDFLoader_load = (\<lambda>p. Inr [page ''Hello '' p 0, page ''world'' p 1]),
      PDFMinerLoader_load = (\<lambda>p. Inl (Exception (codepoints ''not called''))),
      split_documents = reference_split_documents,
      raises = (\<lambda>l. None)\<rparr>"

section \<open>Properties\<close>

subsection \<open>Auxiliary facts\<close>

lemma extend_all_concat:
  "extend_all env fs (d, t) =
     (d @ concat (map (\<lambda>f. fst (extract_pages env f)) fs),
      t @ concat (map (\<lambda>f. snd (extract_pages env f)) fs))"
  by (induction fs arbitrary: d t) (simp_all add: Let_def split: prod.splits)

lemma all_docs_concat:
  "all_docs env = concat (map (\<lambda>f. fst (extract_pages env f)) (pdf_files env))"
  by (simp add: all_docs_def extend_all_concat)

lemma fst_extract_pages:
  "fst (extract_pages env p) =
     (if total_chars (final_pages env p) = 0 then [] else final_pages env p)"
  by (simp add: extract_pages_def final_pages_def Let_def split: prod.splits)

lemma snd_extract_pages:
  "snd (extract_pages env p) =
     snd (try_PyPDF env p) @ snd (try_PDFMiner env p (fst (try_PyPDF env p))) @
     [if total_chars (final_pages env p) = 0 then Print_skip p
      else Print_ok p (length (final_pages env p)) (total_chars (final_pages env p))]"
  by (simp add: extract_pages_def final_pages_def Let_def split: prod.splits)

lemma total_chars_eq_0: "total_chars pages = 0 \<longleftrightarrow> (\<forall>d\<in>set pages. page_content d = [])"
  by (induction pages) (auto simp: total_chars_def)

lemma length_strip_le: "length (strip s) \<le> length s"
  unfolding strip_def
  by (metis length_dropWhile_le length_rev order_trans)

lemma stripped_le_total: "stripped_chars pages \<le> total_chars pages"
  unfolding stripped_chars_def total_chars_def
  by (induction pages) (auto intro: add_mono length_strip_le)

lemmas example_defs =
  extract_pages_def try_PyPDF_def try_PDFMiner_def final_pages_def example_env_def
  codepoints_def page_def stripped_chars_def total_chars_def strip_def isspace_def Let_def

lemma trace_try_PyPDF:
  "\<exists>t. snd (try_PyPDF env p) = Call_PyPDFLoader p # t \<and> Call_PDFMinerLoader p \<notin> set t"
  by (simp add: try_PyPDF_def split: sum.splits)

lemma trace_try_PDFMiner:
  "Call_PDFMinerLoader p \<in> set (snd (try_PDFMiner env p pages)) \<longleftrightarrow> stripped_chars pages = 0"
  by (simp add: try_PDFMiner_def split: sum.splits)

lemma fallback_iff:
  "Call_PDFMinerLoader p \<in> set (snd (extract_pages env p)) \<longleftrightarrow>
     stripped_chars (fst (try_PyPDF env p)) = 0"
  using trace_try_PyPDF [of env p] by (auto simp: snd_extract_pages trace_try_PDFMiner)

lemma skip_iff:
  "Print_skip p \<in> set (snd (extract_pages env p)) \<longleftrightarrow> total_chars (final_pages env p) = 0"
  by (auto simp: snd_extract_pages try_PyPDF_def try_PDFMiner_def split: sum.splits if_splits)

subsection \<open>Extraction of one file\<close>

lemma final_pages_cases:
  "final_pages env p = fst (try_PyPDF env p) \<or>
   (stripped_chars (fst (try_PyPDF env p)) = 0 \<and>
    PDFMinerLoader_load env p = Inr (final_pages env p))"
  by (simp add: final_pages_def try_PDFMiner_def split: sum.splits)


lemma try_PyPDF_pages:
  "fst (try_PyPDF env p) = (case PyPDFLoader_load env p of Inl e \<Rightarrow> [] | Inr pages \<Rightarrow> pages)"
  by (simp add: try_PyPDF_def split: sum.splits)

lemma final_pages_fallback:
  "stripped_chars (fst (try_PyPDF env p)) = 0 \<Longrightarrow> PDFMinerLoader_load env p = Inr q \<Longrightarrow>
     final_pages env p = q"
  by (simp add: final_pages_def try_PDFMiner_def)

lemma final_pages_fallback_raises:
  "stripped_chars (fst (try_PyPDF env p)) = 0 \<Longrightarrow> PDFMinerLoader_load env p = Inl e \<Longrightarrow>
     final_pages env p = fst (try_PyPDF env p)"
  by (simp add: final_pages_def try_PDFMiner_def)

lemma final_pages_primary:
  "stripped_chars (fst (try_PyPDF env p)) \<noteq> 0 \<Longrightarrow> final_pages env p = fst (try_PyPDF env p)"
  by (simp add: final_pages_def try_PDFMiner_def)

text \<open>
  Claim C1. For every file, the events of \<open>extract_pages\<close> start with the call of the
  primary loader (PyPDF), whose pages are the primary result (no page when it raised). The
  fallback loader (PDFMiner) is called after it exactly when the primary result has no
  stripped characters, which covers a primary loader that raised, returned no page or
  returned pages without any character; the pages are then those the fallback returns, or
  the primary ones when it raises. If the page list then still has no character, the file
  is skipped: the skip line is printed and the empty list is returned; otherwise the pages
  are returned.
\<close>

theorem extract_pages_primary_then_fallback:
  "(\<exists>t. snd (extract_pages env p) = Call_PyPDFLoader p # t \<and>
        (Call_PDFMinerLoader p \<in> set t \<longleftrightarrow> stripped_chars (fst (try_PyPDF env p)) = 0)) \<and>
   (total_chars (fst (try_PyPDF env p)) = 0 \<longrightarrow>
      Call_PDFMinerLoader p \<in> set (snd (extract_pages env p))) \<and>
   (total_chars (final_pages env p) = 0 \<longrightarrow>
      fst (extract_pages env p) = [] \<and> Print_skip p \<in> set (snd (extract_pages env p))) \<and>
   (total_chars (final_pages env p) \<noteq> 0 \<longrightarrow>
      fst (extract_pages env p) = final_pages env p \<and>
      Print_skip p \<notin> set (snd (extract_pages env p))) \<and>
   fst (try_PyPDF env p) =
     (case PyPDFLoader_load env p of Inl e \<Rightarrow> [] | Inr pages \<Rightarrow> pages) \<and>
   (stripped_chars (fst (try_PyPDF env p)) = 0 \<and> PDFMinerLoader_load env p = Inr q \<longrightarrow>
      final_pages env p = q \<and>
      fst (extract_pages env p) = (if total_chars q = 0 then [] else q)) \<and>
   (stripped_chars (fst (try_PyPDF env p)) = 0 \<and> PDFMinerLoader_load env p = Inl e \<longrightarrow>
      final_pages env p = fst (try_PyPDF env p)) \<and>
   (stripped_chars (fst (try_PyPDF env p)) \<noteq> 0 \<longrightarrow>
      final_pages env p = fst (try_PyPDF env p))"
proof -
  obtain t where t: "snd (try_PyPDF env p) = Call_PyPDFLoader p # t"
    using trace_try_PyPDF by blast
  have "\<exists>t'. snd (extract_pages env p) = Call_PyPDFLoader p # t' \<and>
        (Call_PDFMinerLoader p \<in> set t' \<longleftrightarrow> stripped_chars (fst (try_PyPDF env p)) = 0)"
    using t fallback_iff [of p env] by (simp add: snd_extract_pages)
  moreover have "total_chars (fst (try_PyPDF env p)) = 0 \<longrightarrow>
      Call_PDFMinerLoader p \<in> set (snd (extract_pages env p))"
    using fallback_iff [of p env] stripped_le_total [of "fst (try_PyPDF env p)"] by simp
  moreover have "stripped_chars (fst (try_PyPDF env p)) = 0 \<and>
      PDFMinerLoader_load env p = Inr q \<longrightarrow>
      final_pages env p = q \<and>
      fst (extract_pages env p) = (if total_chars q = 0 then [] else q)"
    by (simp add: fst_extract_pages final_pages_fallback)
  moreover have "stripped_chars (fst (try_PyPDF env p)) = 0 \<and>
      PDFMinerLoader_load env p = Inl e \<longrightarrow> final_pages env p = fst (try_PyPDF env p)"
    by (simp add: final_pages_fallback_raises)
  moreover have "stripped_chars (fst (try_PyPDF env p)) \<noteq> 0 \<longrightarrow>
      final_pages env p = fst (try_PyPDF env p)"
    by (simp add: final_pages_primary)
  moreover note try_PyPDF_pages [of env p]
  ultimately show ?thesis
    by (simp add: fst_extract_pages skip_iff)
qed


lemma example_loaders:
  "PyPDFLoader_load example_env (codepoints ''a.pdf'') =
     Inr [page ''Hello world'' (codepoints ''a.pdf'') 0, page [] (codepoints ''a.pdf'') 1]"
  "PyPDFLoader_load example_env (codepoints ''b.pdf'') = Inr [page ''  '' (codepoints ''b.pdf'') 0]"
  "PDFMinerLoader_load example_env (codepoints ''b.pdf'') =
     Inr [page ''Scanned text'' (codepoints ''b.pdf'') 0]"
  "PyPDFLoader_load example_env (codepoints ''d.pdf'') = Inr []"
  "PDFMinerLoader_load example_env (codepoints ''d.pdf'') = Inr [page [] (codepoints ''d.pdf'') 0]"
  "PyPDFLoader_load example_env (codepoints ''e.pdf'') = Inr [page '' '' (codepoints ''e.pdf'') 0]"
  "PDFMinerLoader_load example_env (codepoints ''e.pdf'') =
     Inl (Exception (codepoints ''no /Root''))"
  "PyPDFLoader_load example_env (codepoints ''f.pdf'') = Inr [page '' '' (codepoints ''f.pdf'') 0]"
  "PDFMinerLoader_load example_env (codepoints ''f.pdf'') = Inr [page [] (codepoints ''f.pdf'') 0]"
  by (simp_all add: example_env_def codepoints_def)

lemma example_primary:
  "stripped_chars (fst (try_PyPDF example_env (codepoints ''a.pdf''))) \<noteq> 0"
  "stripped_chars (fst (try_PyPDF example_env (codepoints ''b.pdf''))) = 0"
  "0 < total_chars (fst (try_PyPDF example_env (codepoints ''b.pdf'')))"
  "stripped_chars (fst (try_PyPDF example_env (codepoints ''d.pdf''))) = 0"
  "total_chars (fst (try_PyPDF example_env (codepoints ''d.pdf''))) = 0"
  "stripped_chars (fst (try_PyPDF example_env (codepoints ''e.pdf''))) = 0"
  "0 < total_chars (fst (try_PyPDF example_env (codepoints ''e.pdf'')))"
  "stripped_chars (fst (try_PyPDF example_env (codepoints ''f.pdf''))) = 0"
  "0 < total_chars (fst (try_PyPDF example_env (codepoints ''f.pdf'')))"
  by (simp_all add: example_defs)

lemma example_page_totals:
  "total_chars [page ''Scanned text'' (codepoints ''b.pdf'') 0] \<noteq> 0"
  "total_chars [page [] (codepoints ''d.pdf'') 0] = 0"
  "total_chars [page [] (codepoints ''f.pdf'') 0] = 0"
  by (simp_all add: total_chars_def page_def codepoints_def)

theorem extract_pages_primary_then_fallback_witness:
  "stripped_chars (fst (try_PyPDF example_env (codepoints ''b.pdf''))) = 0 \<and>
   PDFMinerLoader_load example_env (codepoints ''b.pdf'') =
     Inr [page ''Scanned text'' (codepoints ''b.pdf'') 0] \<and>
   final_pages example_env (codepoints ''b.pdf'') =
     [page ''Scanned text'' (codepoints ''b.pdf'') 0] \<and>
   fst (extract_pages example_env (codepoints ''b.pdf'')) =
     [page ''Scanned text'' (codepoints ''b.pdf'') 0] \<and>
   total_chars (fst (try_PyPDF example_env (codepoints ''d.pdf''))) = 0 \<and>
   Call_PDFMinerLoader (codepoints ''d.pdf'')
     \<in> set (snd (extract_pages example_env (codepoints ''d.pdf''))) \<and>
   PDFMinerLoader_load example_env (codepoints ''d.pdf'') =
     Inr [page [] (codepoints ''d.pdf'') 0] \<and>
   final_pages example_env (codepoints ''d.pdf'') = [page [] (codepoints ''d.pdf'') 0] \<and>
   total_chars (final_pages example_env (codepoints ''d.pdf'')) = 0 \<and>
   fst (extract_pages example_env (codepoints ''d.pdf'')) = [] \<and>
   Print_skip (codepoints ''d.pdf'')
     \<in> set (snd (extract_pages example_env (codepoints ''d.pdf''))) \<and>
   stripped_chars (fst (try_PyPDF example_env (codepoints ''e.pdf''))) = 0 \<and>
   PDFMinerLoader_load example_env (codepoints ''e.pdf'') =
     Inl (Exception (codepoints ''no /Root'')) \<and>
   final_pages example_env (codepoints ''e.pdf'') =
     fst (try_PyPDF example_env (codepoints ''e.pdf'')) \<and>
   stripped_chars (fst (try_PyPDF example_env (codepoints ''a.pdf''))) \<noteq> 0 \<and>
   final_pages example_env (codepoints ''a.pdf'') =
     fst (try_PyPDF example_env (codepoints ''a.pdf'')) \<and>
   total_chars (final_pages example_env (codepoints ''a.pdf'')) \<noteq> 0 \<and>
   fst (extract_pages example_env (codepoints ''a.pdf'')) =
     final_pages example_env (codepoints ''a.pdf'') \<and>
   Print_skip (codepoints ''a.pdf'')
     \<notin> set (snd (extract_pages example_env (codepoints ''a.pdf'')))"
proof -
  note b = extract_pages_primary_then_fallback [where env = example_env
      and p = "codepoints ''b.pdf''" and q = "[page ''Scanned text'' (codepoints ''b.pdf'') 0]"]
  note d = extract_pages_primary_then_fallback [where env = example_env
      and p = "codepoints ''d.pdf''" and q = "[page [] (codepoints ''d.pdf'') 0]"]
  note e = extract_pages_primary_then_fallback [where env = example_env
      and p = "codepoints ''e.pdf''" and e = "Exception (codepoints ''no /Root'')"]
  note a = extract_pages_primary_then_fallback [where env = example_env
      and p = "codepoints ''a.pdf''"]
  have b6: "final_pages example_env (codepoints ''b.pdf'') =
        [page ''Scanned text'' (codepoints ''b.pdf'') 0] \<and>
      fst (extract_pages example_env (codepoints ''b.pdf'')) =
        [page ''Scanned text'' (codepoints ''b.pdf'') 0]"
    using b example_primary(2) example_loaders(3) example_page_totals(1) by simp
  have d2: "Call_PDFMinerLoader (codepoints ''d.pdf'')
      \<in> set (snd (extract_pages example_env (codepoints ''d.pdf'')))"
    using d example_primary(5) by blast
  have d6: "final_pages example_env (codepoints ''d.pdf'') = [page [] (codepoints ''d.pdf'') 0]"
    using d example_primary(4) example_loaders(5) by blast
  then have d0: "total_chars (final_pages example_env (codepoints ''d.pdf'')) = 0"
    by (simp add: example_page_totals(2))
  have d3: "fst (extract_pages example_env (codepoints ''d.pdf'')) = [] \<and>
      Print_skip (codepoints ''d.pdf'')
        \<in> set (snd (extract_pages example_env (codepoints ''d.pdf'')))"
    using d d0 by blast
  have e7: "final_pages example_env (codepoints ''e.pdf'') =
      fst (try_PyPDF example_env (codepoints ''e.pdf''))"
    using e example_primary(6) example_loaders(7) by blast
  have a8: "final_pages example_env (codepoints ''a.pdf'') =
      fst (try_PyPDF example_env (codepoints ''a.pdf''))"
    using a example_primary(1) by blast
  have a0: "total_chars (final_pages example_env (codepoints ''a.pdf'')) \<noteq> 0"
    using a8 example_primary(1) stripped_le_total [of "fst (try_PyPDF example_env (codepoints ''a.pdf''))"]
    by simp
  have a4: "fst (extract_pages example_env (codepoints ''a.pdf'')) =
        final_pages example_env (codepoints ''a.pdf'') \<and>
      Print_skip (codepoints ''a.pdf'')
        \<notin> set (snd (extract_pages example_env (codepoints ''a.pdf'')))"
    using a a0 by blast
  show ?thesis
    using b6 d2 d6 d0 d3 e7 a8 a0 a4 example_primary(1,2,4,5,6) example_loaders(3,5,7)
    by - (intro conjI, (elim conjE, assumption)+)
qed


text \<open>
  A whitespace-only primary result does not by itself make the file count as extracted:
  for \<^verbatim>\<open>f.pdf\<close> the primary loader returns one page holding one space (raw length 1), the
  fallback is called and returns a page without characters, and the file is skipped.
\<close>

theorem whitespace_only_primary_skipped_counterexample:
  "PyPDFLoader_load example_env (codepoints ''f.pdf'') =
     Inr [page '' '' (codepoints ''f.pdf'') 0] \<and>
   stripped_chars (fst (try_PyPDF example_env (codepoints ''f.pdf''))) = 0 \<and>
   0 < total_chars (fst (try_PyPDF example_env (codepoints ''f.pdf''))) \<and>
   Call_PDFMinerLoader (codepoints ''f.pdf'')
     \<in> set (snd (extract_pages example_env (codepoints ''f.pdf''))) \<and>
   fst (extract_pages example_env (codepoints ''f.pdf'')) = [] \<and>
   Print_skip (codepoints ''f.pdf'')
     \<in> set (snd (extract_pages example_env (codepoints ''f.pdf'')))"
proof -
  have final: "final_pages example_env (codepoints ''f.pdf'') =
      [page [] (codepoints ''f.pdf'') 0]"
    using example_primary(8) example_loaders(9) by (rule final_pages_fallback)
  then have "total_chars (final_pages example_env (codepoints ''f.pdf'')) = 0"
    by (simp add: example_page_totals(3))
  then have "fst (extract_pages example_env (codepoints ''f.pdf'')) = [] \<and>
      Print_skip (codepoints ''f.pdf'')
        \<in> set (snd (extract_pages example_env (codepoints ''f.pdf'')))"
    by (simp add: fst_extract_pages skip_iff)
  moreover have "Call_PDFMinerLoader (codepoints ''f.pdf'')
      \<in> set (snd (extract_pages example_env (codepoints ''f.pdf'')))"
    using example_primary(8) by (simp add: fallback_iff)
  ultimately show ?thesis
    using example_loaders(8) example_primary(8,9) by blast
qed

text \<open>
  Claim C9, as amended. \<open>extract_pages\<close> returns the empty list exactly when the raw
  (unstripped) character total of the final page list is zero, where the final page list is
  the fallback's when the fallback was called and returned, and the primary one otherwise.
  The fallback loader is called exactly when the stripped character total of the primary
  result is zero, a condition that the raw total being zero implies. A primary result that
  is whitespace-only with a nonzero raw length triggers the fallback; the file is then
  skipped exactly when the fallback returns pages without any character, and returned
  otherwise (when the fallback raises, or returns pages with characters). A final page list
  that is whitespace-only with a nonzero raw length is returned, not skipped.
\<close>

theorem extract_pages_empty_iff_no_raw_chars:
  "(fst (extract_pages env p) = [] \<longleftrightarrow> total_chars (final_pages env p) = 0) \<and>
   (Call_PDFMinerLoader p \<in> set (snd (extract_pages env p)) \<longleftrightarrow>
      stripped_chars (fst (try_PyPDF env p)) = 0) \<and>
   (total_chars (fst (try_PyPDF env p)) = 0 \<longrightarrow> stripped_chars (fst (try_PyPDF env p)) = 0) \<and>
   (stripped_chars (final_pages env p) = 0 \<and> 0 < total_chars (final_pages env p) \<longrightarrow>
      Call_PDFMinerLoader p \<in> set (snd (extract_pages env p)) \<and>
      fst (extract_pages env p) = final_pages env p \<and>
      fst (extract_pages env p) \<noteq> [] \<and>
      Print_skip p \<notin> set (snd (extract_pages env p))) \<and>
   final_pages env p =
     (if stripped_chars (fst (try_PyPDF env p)) = 0
      then case PDFMinerLoader_load env p of
             Inl e \<Rightarrow> fst (try_PyPDF env p)
           | Inr pages \<Rightarrow> pages
      else fst (try_PyPDF env p)) \<and>
   fst (try_PyPDF env p) =
     (case PyPDFLoader_load env p of Inl e \<Rightarrow> [] | Inr pages \<Rightarrow> pages) \<and>
   (stripped_chars (fst (try_PyPDF env p)) = 0 \<and> 0 < total_chars (fst (try_PyPDF env p)) \<longrightarrow>
      Call_PDFMinerLoader p \<in> set (snd (extract_pages env p)) \<and>
      (fst (extract_pages env p) = [] \<longleftrightarrow>
         (case PDFMinerLoader_load env p of
            Inl e \<Rightarrow> False
          | Inr pages \<Rightarrow> total_chars pages = 0)))"
proof -
  have empty: "fst (extract_pages env p) = [] \<longleftrightarrow> total_chars (final_pages env p) = 0"
    by (auto simp: fst_extract_pages total_chars_def)
  have weaker: "total_chars (fst (try_PyPDF env p)) = 0 \<longrightarrow>
      stripped_chars (fst (try_PyPDF env p)) = 0"
    using stripped_le_total [of "fst (try_PyPDF env p)"] by simp
  have blank: "Call_PDFMinerLoader p \<in> set (snd (extract_pages env p)) \<and>
      fst (extract_pages env p) = final_pages env p \<and>
      fst (extract_pages env p) \<noteq> [] \<and>
      Print_skip p \<notin> set (snd (extract_pages env p))"
    if "stripped_chars (final_pages env p) = 0" "0 < total_chars (final_pages env p)"
  proof -
    have "stripped_chars (fst (try_PyPDF env p)) = 0"
      using final_pages_cases [of env p] that(1) by auto
    moreover have "fst (extract_pages env p) = final_pages env p"
      using that(2) by (simp add: fst_extract_pages)
    ultimately show ?thesis
      using that(2) empty by (simp add: fallback_iff skip_iff)
  qed
  have final: "final_pages env p =
     (if stripped_chars (fst (try_PyPDF env p)) = 0
      then case PDFMinerLoader_load env p of
             Inl e \<Rightarrow> fst (try_PyPDF env p)
           | Inr pages \<Rightarrow> pages
      else fst (try_PyPDF env p))"
    by (simp add: final_pages_def try_PDFMiner_def split: sum.splits)
  have primary: "Call_PDFMinerLoader p \<in> set (snd (extract_pages env p)) \<and>
      (fst (extract_pages env p) = [] \<longleftrightarrow>
         (case PDFMinerLoader_load env p of
            Inl e \<Rightarrow> False
          | Inr pages \<Rightarrow> total_chars pages = 0))"
    if "stripped_chars (fst (try_PyPDF env p)) = 0" "0 < total_chars (fst (try_PyPDF env p))"
    using that empty by (simp add: fallback_iff final split: sum.splits)
  show ?thesis
    using empty weaker blank final primary fallback_iff [of p env] try_PyPDF_pages [of env p]
    by blast
qed


lemma example_e:
  "final_pages example_env (codepoints ''e.pdf'') = [page '' '' (codepoints ''e.pdf'') 0]"
  "stripped_chars (final_pages example_env (codepoints ''e.pdf'')) = 0"
  "0 < total_chars (final_pages example_env (codepoints ''e.pdf''))"
  by (simp_all add: example_defs)

theorem extract_pages_empty_iff_no_raw_chars_witness:
  "stripped_chars (final_pages example_env (codepoints ''e.pdf'')) = 0 \<and>
   0 < total_chars (final_pages example_env (codepoints ''e.pdf'')) \<and>
   stripped_chars (fst (try_PyPDF example_env (codepoints ''e.pdf''))) = 0 \<and>
   0 < total_chars (fst (try_PyPDF example_env (codepoints ''e.pdf''))) \<and>
   PDFMinerLoader_load example_env (codepoints ''e.pdf'') =
     Inl (Exception (codepoints ''no /Root'')) \<and>
   Call_PDFMinerLoader (codepoints ''e.pdf'')
     \<in> set (snd (extract_pages example_env (codepoints ''e.pdf''))) \<and>
   fst (extract_pages example_env (codepoints ''e.pdf'')) =
     final_pages example_env (codepoints ''e.pdf'') \<and>
   fst (extract_pages example_env (codepoints ''e.pdf'')) \<noteq> [] \<and>
   Print_skip (codepoints ''e.pdf'')
     \<notin> set (snd (extract_pages example_env (codepoints ''e.pdf''))) \<and>
   stripped_chars (fst (try_PyPDF example_env (codepoints ''f.pdf''))) = 0 \<and>
   0 < total_chars (fst (try_PyPDF example_env (codepoints ''f.pdf''))) \<and>
   PDFMinerLoader_load example_env (codepoints ''f.pdf'') =
     Inr [page [] (codepoints ''f.pdf'') 0] \<and>
   Call_PDFMinerLoader (codepoints ''f.pdf'')
     \<in> set (snd (extract_pages example_env (codepoints ''f.pdf''))) \<and>
   fst (extract_pages example_env (codepoints ''f.pdf'')) = [] \<and>
   total_chars (fst (try_PyPDF example_env (codepoints ''d.pdf''))) = 0 \<and>
   stripped_chars (fst (try_PyPDF example_env (codepoints ''d.pdf''))) = 0"
proof -
  note e = extract_pages_empty_iff_no_raw_chars [of example_env "codepoints ''e.pdf''"]
  note f = extract_pages_empty_iff_no_raw_chars [of example_env "codepoints ''f.pdf''"]
  note d = extract_pages_empty_iff_no_raw_chars [of example_env "codepoints ''d.pdf''"]
  have e4: "Call_PDFMinerLoader (codepoints ''e.pdf'')
       \<in> set (snd (extract_pages example_env (codepoints ''e.pdf''))) \<and>
     fst (extract_pages example_env (codepoints ''e.pdf'')) =
       final_pages example_env (codepoints ''e.pdf'') \<and>
     fst (extract_pages example_env (codepoints ''e.pdf'')) \<noteq> [] \<and>
     Print_skip (codepoints ''e.pdf'')
       \<notin> set (snd (extract_pages example_env (codepoints ''e.pdf'')))"
    using e example_e(2,3) by blast
  have f7: "Call_PDFMinerLoader (codepoints ''f.pdf'')
       \<in> set (snd (extract_pages example_env (codepoints ''f.pdf''))) \<and>
     (fst (extract_pages example_env (codepoints ''f.pdf'')) = [] \<longleftrightarrow>
        (case PDFMinerLoader_load example_env (codepoints ''f.pdf'') of
           Inl e \<Rightarrow> False
         | Inr pages \<Rightarrow> total_chars pages = 0))"
    using f example_primary(8,9) by blast
  then have f0: "fst (extract_pages example_env (codepoints ''f.pdf'')) = []"
    by (simp add: example_loaders(9) example_page_totals(3))
  have d3: "stripped_chars (fst (try_PyPDF example_env (codepoints ''d.pdf''))) = 0"
    using d example_primary(5) by blast
  show ?thesis
    using e4 f7 f0 d3 example_e(2,3) example_primary(5,6,7,8,9) example_loaders(7,9)
    by - (intro conjI, (elim conjE, assumption)+)
qed

subsection \<open>The run\<close>

lemma pdf_files_empty: "pdf_files env = [] \<longleftrightarrow> glob_pdf env = []"
  unfolding pdf_files_def by (metis length_0_conv length_sort)

lemma set_pdf_files: "set (pdf_files env) = set (glob_pdf env)"
  by (simp add: pdf_files_def)

lemma all_docs_no_pdfs: "glob_pdf env = [] \<Longrightarrow> all_docs env = []"
  by (simp add: all_docs_concat pdf_files_def)

lemma split_and_persist_eq:
  "split_and_persist env fs1 docs t1 =
     (let cs = split_documents env 1000 150 docs;
          t44 = t1 @ [Call_RecursiveCharacterTextSplitter 1000 150];
          t45 = t44 @ [Call_split_documents 1000 150];
          t49 = t45 @ [Call_HuggingFaceEmbeddings];
          t50 = t49 @ [Call_from_documents (length cs)];
          t51 = t50 @ [Call_persist];
          t52 = t51 @ [Print_embedded (length cs) (length docs)];
          fs2 = fs1\<lparr>persisted := persisted fs1 @ cs\<rparr>
      in if raises env 44 \<noteq> None then
           \<lparr>outcome = Uncaught (the (raises env 44)), fs_after = fs1, trace = t44\<rparr>
         else if raises env 45 \<noteq> None then
           \<lparr>outcome = Uncaught (the (raises env 45)), fs_after = fs1, trace = t45\<rparr>
         else if cs = [] then
           \<lparr>outcome = SystemExit Zero_chunks, fs_after = fs1, trace = t45\<rparr>
         else if raises env 49 \<noteq> None then
           \<lparr>outcome = Uncaught (the (raises env 49)), fs_after = fs1, trace = t49\<rparr>
         else if raises env 50 \<noteq> None then
           \<lparr>outcome = Uncaught (the (raises env 50)), fs_after = fs1, trace = t50\<rparr>
         else if raises env 51 \<noteq> None then
           \<lparr>outcome = Uncaught (the (raises env 51)), fs_after = fs1, trace = t51\<rparr>
         else if raises env 52 \<noteq> None then
           \<lparr>outcome = Uncaught (the (raises env 52)), fs_after = fs2, trace = t52\<rparr>
         else \<lparr>outcome = Completed cs, fs_after = fs2, trace = t52\<rparr>)"
  by (simp add: split_and_persist_def Let_def split: option.splits)

lemma embed_guidelines_eq:
  "embed_guidelines env fs0 =
     (let fs1 = fs0\<lparr>persist_dir := Directory\<rparr>;
          t0 = [Mkdir_PERSIST_DIR, Print_looking, Glob_pdf];
          t1 = t0 @ concat (map (\<lambda>f. snd (extract_pages env f)) (pdf_files env))
      in if persist_dir fs0 = Regular_file then
           \<lparr>outcome = Uncaught FileExistsError, fs_after = fs0, trace = [Mkdir_PERSIST_DIR]\<rparr>
         else if raises env 11 \<noteq> None then
           \<lparr>outcome = Uncaught (the (raises env 11)), fs_after = fs0,
            trace = [Mkdir_PERSIST_DIR]\<rparr>
         else if raises env 13 \<noteq> None then
           \<lparr>outcome = Uncaught (the (raises env 13)), fs_after = fs1,
            trace = [Mkdir_PERSIST_DIR, Print_looking]\<rparr>
         else if raises env 14 \<noteq> None then
           \<lparr>outcome = Uncaught (the (raises env 14)), fs_after = fs1, trace = t0\<rparr>
         else if pdf_files env = [] then
           \<lparr>outcome = SystemExit No_PDFs_found, fs_after = fs1, trace = t0\<rparr>
         else if all_docs env = [] then
           \<lparr>outcome = SystemExit No_text_extracted, fs_after = fs1, trace = t1\<rparr>
         else split_and_persist env fs1 (all_docs env) t1)"
  by (simp add: embed_guidelines_def mkdir_parents_exist_ok_def all_docs_def pdf_files_def
      extend_all_concat Let_def split: option.splits)

text \<open>The run when the calls of lines 11, 13 and 14 return.\<close>

lemma embed_guidelines_scan:
  "scan_returns env fs0 \<Longrightarrow>
     embed_guidelines env fs0 =
       (let fs1 = fs0\<lparr>persist_dir := Directory\<rparr>;
            t0 = [Mkdir_PERSIST_DIR, Print_looking, Glob_pdf];
            t1 = t0 @ concat (map (\<lambda>f. snd (extract_pages env f)) (pdf_files env))
        in if pdf_files env = [] then
             \<lparr>outcome = SystemExit No_PDFs_found, fs_after = fs1, trace = t0\<rparr>
           else if all_docs env = [] then
             \<lparr>outcome = SystemExit No_text_extracted, fs_after = fs1, trace = t1\<rparr>
           else split_and_persist env fs1 (all_docs env) t1)"
  by (simp add: embed_guidelines_eq scan_returns_def Let_def)

text \<open>The run when one of them raises.\<close>

lemma embed_guidelines_no_scan:
  "\<not> scan_returns env fs0 \<Longrightarrow>
     (\<exists>e. outcome (embed_guidelines env fs0) = Uncaught e) \<and>
     set (trace (embed_guidelines env fs0)) \<subseteq> {Mkdir_PERSIST_DIR, Print_looking, Glob_pdf} \<and>
     persisted (fs_after (embed_guidelines env fs0)) = persisted fs0"
  by (auto simp: embed_guidelines_eq scan_returns_def Let_def)

lemma split_and_persist_trace: "\<exists>post. trace (split_and_persist env fs1 docs t1) = t1 @ post"
  by (simp add: split_and_persist_eq Let_def)

lemma split_and_persist_outcome:
  "outcome (split_and_persist env fs1 docs t1) = SystemExit m \<longleftrightarrow>
     m = Zero_chunks \<and> lines_return env [44, 45] \<and> split_documents env 1000 150 docs = []"
  "outcome (split_and_persist env fs1 docs t1) = Completed cs \<longleftrightarrow>
     lines_return env [44, 45, 49, 50, 51, 52] \<and> cs \<noteq> [] \<and>
     cs = split_documents env 1000 150 docs"
  "(\<exists>e. outcome (split_and_persist env fs1 docs t1) = Uncaught e) \<longleftrightarrow>
     \<not> lines_return env [44, 45] \<or>
     (split_documents env 1000 150 docs \<noteq> [] \<and> \<not> lines_return env [49, 50, 51, 52])"
  by (auto simp: split_and_persist_eq Let_def lines_return_def)

lemma no_loader_call_before_loop:
  "e \<in> {Mkdir_PERSIST_DIR, Print_looking, Glob_pdf} \<Longrightarrow> \<not> is_loader_call e"
  by (auto simp: is_loader_call_def)

lemma run_without_pdfs:
  "glob_pdf env = [] \<Longrightarrow>
     embed_guidelines env fs0 =
       (if persist_dir fs0 = Regular_file then
          \<lparr>outcome = Uncaught FileExistsError, fs_after = fs0, trace = [Mkdir_PERSIST_DIR]\<rparr>
        else if raises env 11 \<noteq> None then
          \<lparr>outcome = Uncaught (the (raises env 11)), fs_after = fs0,
           trace = [Mkdir_PERSIST_DIR]\<rparr>
        else if raises env 13 \<noteq> None then
          \<lparr>outcome = Uncaught (the (raises env 13)),
           fs_after = fs0\<lparr>persist_dir := Directory\<rparr>,
           trace = [Mkdir_PERSIST_DIR, Print_looking]\<rparr>
        else if raises env 14 \<noteq> None then
          \<lparr>outcome = Uncaught (the (raises env 14)),
           fs_after = fs0\<lparr>persist_dir := Directory\<rparr>,
           trace = [Mkdir_PERSIST_DIR, Print_looking, Glob_pdf]\<rparr>
        else
          \<lparr>outcome = SystemExit No_PDFs_found, fs_after = fs0\<lparr>persist_dir := Directory\<rparr>,
           trace = [Mkdir_PERSIST_DIR, Print_looking, Glob_pdf]\<rparr>)"
  by (simp add: embed_guidelines_eq pdf_files_empty Let_def)

text \<open>
  Claim C5. When the directory scan yields no \<^verbatim>\<open>*.pdf\<close> path, the run ends with exit
  status 1 and no loader call is in its trace, and the run does not depend on the loaders.
  When the calls of lines 11, 13 and 14 return, it ends with the \<^verbatim>\<open>SystemExit\<close> of line 16
  and its trace holds the directory creation, the first printed line and the scan only;
  otherwise it ends before, with the exception of that call.
\<close>

theorem no_pdfs_exit_before_extraction:
  "glob_pdf env = [] \<Longrightarrow>
     exit_status (outcome (embed_guidelines env fs0)) = 1 \<and>
     (\<forall>e \<in> set (trace (embed_guidelines env fs0)). \<not> is_loader_call e) \<and>
     embed_guidelines (env\<lparr>PyPDFLoader_load := l1, PDFMinerLoader_load := l2\<rparr>) fs0 =
       embed_guidelines env fs0 \<and>
     (scan_returns env fs0 \<longrightarrow>
        outcome (embed_guidelines env fs0) = SystemExit No_PDFs_found \<and>
        trace (embed_guidelines env fs0) = [Mkdir_PERSIST_DIR, Print_looking, Glob_pdf]) \<and>
     (\<not> scan_returns env fs0 \<longrightarrow>
        (\<exists>e. outcome (embed_guidelines env fs0) = Uncaught e))"
  by (simp add: run_without_pdfs is_loader_call_def scan_returns_def)

lemma example_scan_returns:
  "scan_returns example_env empty_fs"
  "scan_returns (example_env\<lparr>glob_pdf := g\<rparr>) empty_fs"
  by (simp_all add: scan_returns_def example_env_def empty_fs_def)

theorem no_pdfs_exit_before_extraction_witness:
  "glob_pdf (example_env\<lparr>glob_pdf := []\<rparr>) = [] \<and>
   scan_returns (example_env\<lparr>glob_pdf := []\<rparr>) empty_fs \<and>
   outcome (embed_guidelines (example_env\<lparr>glob_pdf := []\<rparr>) empty_fs) =
     SystemExit No_PDFs_found \<and>
   exit_status (outcome (embed_guidelines (example_env\<lparr>glob_pdf := []\<rparr>) empty_fs)) = 1 \<and>
   trace (embed_guidelines (example_env\<lparr>glob_pdf := []\<rparr>) empty_fs) =
     [Mkdir_PERSIST_DIR, Print_looking, Glob_pdf] \<and>
   glob_pdf (example_env\<lparr>glob_pdf := []\<rparr>) = [] \<and>
   \<not> scan_returns (example_env\<lparr>glob_pdf := []\<rparr>) file_fs \<and>
   exit_status (outcome (embed_guidelines (example_env\<lparr>glob_pdf := []\<rparr>) file_fs)) = 1 \<and>
   (\<exists>e. outcome (embed_guidelines (example_env\<lparr>glob_pdf := []\<rparr>) file_fs) = Uncaught e)"
proof -
  have on_file: "\<not> scan_returns (example_env\<lparr>glob_pdf := []\<rparr>) file_fs"
    by (simp add: scan_returns_def file_fs_def)
  show ?thesis
    using no_pdfs_exit_before_extraction [of "example_env\<lparr>glob_pdf := []\<rparr>" empty_fs]
      no_pdfs_exit_before_extraction [of "example_env\<lparr>glob_pdf := []\<rparr>" file_fs]
      example_scan_returns(2) [of "[]"] on_file
    by simp
qed

lemma no_glob_event_in_loop: "Glob_pdf \<notin> set (snd (extract_pages env p))"
  by (simp add: snd_extract_pages try_PyPDF_def try_PDFMiner_def split: sum.splits)

lemma run_trace_head: "\<exists>t. trace (embed_guidelines env fs0) = Mkdir_PERSIST_DIR # t"
  using split_and_persist_trace
    [of env "fs0\<lparr>persist_dir := Directory\<rparr>" "all_docs env"
      "[Mkdir_PERSIST_DIR, Print_looking, Glob_pdf] @
       concat (map (\<lambda>f. snd (extract_pages env f)) (pdf_files env))"]
  by (auto simp: embed_guidelines_eq Let_def)

lemma run_after_mkdir:
  "persist_dir fs0 \<noteq> Regular_file \<Longrightarrow> raises env 11 = None \<Longrightarrow>
     persist_dir (fs_after (embed_guidelines env fs0)) = Directory"
  by (simp add: embed_guidelines_eq split_and_persist_eq Let_def)

lemma run_glob_event:
  "Glob_pdf \<in> set (trace (embed_guidelines env fs0)) \<Longrightarrow>
     persist_dir fs0 \<noteq> Regular_file \<and> raises env 11 = None \<and> raises env 13 = None \<and>
     (\<exists>t. trace (embed_guidelines env fs0) =
        Mkdir_PERSIST_DIR # Print_looking # Glob_pdf # t)"
  using split_and_persist_trace
    [of env "fs0\<lparr>persist_dir := Directory\<rparr>" "all_docs env"
      "[Mkdir_PERSIST_DIR, Print_looking, Glob_pdf] @
       concat (map (\<lambda>f. snd (extract_pages env f)) (pdf_files env))"]
  by (auto simp: embed_guidelines_eq Let_def split: if_splits)

lemma no_pdfs_exit_iff:
  "outcome (embed_guidelines env fs0) = SystemExit No_PDFs_found \<longleftrightarrow>
     scan_returns env fs0 \<and> glob_pdf env = []"
  by (auto simp: embed_guidelines_eq split_and_persist_outcome Let_def scan_returns_def
      pdf_files_empty)

text \<open>
  Claim C10. The persist directory is created before the PDF folder is scanned: every run's
  trace starts with the directory creation, and when the scan is in the trace it stands
  after the directory creation and the first printed line, and the directory exists in the
  filesystem after the run. In particular the run that ends with the no-PDFs
  \<^verbatim>\<open>SystemExit\<close> leaves the directory created, so when it was absent before, the
  filesystem after this error exit differs from the one before.
\<close>

theorem persist_dir_created_before_scan:
  "(\<exists>t. trace (embed_guidelines env fs0) = Mkdir_PERSIST_DIR # t) \<and>
   (Glob_pdf \<in> set (trace (embed_guidelines env fs0)) \<longrightarrow>
      persist_dir (fs_after (embed_guidelines env fs0)) = Directory \<and>
      (\<exists>t. trace (embed_guidelines env fs0) =
         Mkdir_PERSIST_DIR # Print_looking # Glob_pdf # t)) \<and>
   (scan_returns env fs0 \<longrightarrow> persist_dir (fs_after (embed_guidelines env fs0)) = Directory) \<and>
   (glob_pdf env = [] \<and> scan_returns env fs0 \<longrightarrow>
      outcome (embed_guidelines env fs0) = SystemExit No_PDFs_found) \<and>
   (outcome (embed_guidelines env fs0) = SystemExit No_PDFs_found \<longrightarrow>
      Glob_pdf \<in> set (trace (embed_guidelines env fs0)) \<and>
      fs_after (embed_guidelines env fs0) = fs0\<lparr>persist_dir := Directory\<rparr>) \<and>
   (outcome (embed_guidelines env fs0) = SystemExit No_PDFs_found \<and> persist_dir fs0 = Absent \<longrightarrow>
      fs_after (embed_guidelines env fs0) \<noteq> fs0)"
proof -
  have exit: "Glob_pdf \<in> set (trace (embed_guidelines env fs0)) \<and>
      fs_after (embed_guidelines env fs0) = fs0\<lparr>persist_dir := Directory\<rparr>"
    if "outcome (embed_guidelines env fs0) = SystemExit No_PDFs_found"
  proof -
    have "scan_returns env fs0" "glob_pdf env = []"
      using that by (simp_all add: no_pdfs_exit_iff)
    then show ?thesis
      by (simp add: run_without_pdfs scan_returns_def)
  qed
  have changed: "fs_after (embed_guidelines env fs0) \<noteq> fs0"
    if "outcome (embed_guidelines env fs0) = SystemExit No_PDFs_found" "persist_dir fs0 = Absent"
  proof
    assume "fs_after (embed_guidelines env fs0) = fs0"
    then have "persist_dir (fs0\<lparr>persist_dir := Directory\<rparr>) = persist_dir fs0"
      using exit [OF that(1)] by simp
    then show False
      using that(2) by simp
  qed
  have glob: "persist_dir (fs_after (embed_guidelines env fs0)) = Directory \<and>
      (\<exists>t. trace (embed_guidelines env fs0) =
         Mkdir_PERSIST_DIR # Print_looking # Glob_pdf # t)"
    if "Glob_pdf \<in> set (trace (embed_guidelines env fs0))"
    using run_glob_event [OF that] run_after_mkdir [of fs0 env] by blast
  have scan: "persist_dir (fs_after (embed_guidelines env fs0)) = Directory"
    if "scan_returns env fs0"
    using that run_after_mkdir [of fs0 env] by (simp add: scan_returns_def)
  show ?thesis
    using run_trace_head [of env fs0] glob scan exit changed no_pdfs_exit_iff [of env fs0]
    by blast
qed

theorem persist_dir_created_before_scan_witness:
  "glob_pdf (example_env\<lparr>glob_pdf := []\<rparr>) = [] \<and>
   scan_returns (example_env\<lparr>glob_pdf := []\<rparr>) empty_fs \<and>
   persist_dir empty_fs = Absent \<and>
   outcome (embed_guidelines (example_env\<lparr>glob_pdf := []\<rparr>) empty_fs) =
     SystemExit No_PDFs_found \<and>
   Glob_pdf \<in> set (trace (embed_guidelines (example_env\<lparr>glob_pdf := []\<rparr>) empty_fs)) \<and>
   persist_dir (fs_after (embed_guidelines (example_env\<lparr>glob_pdf := []\<rparr>) empty_fs)) =
     Directory \<and>
   fs_after (embed_guidelines (example_env\<lparr>glob_pdf := []\<rparr>) empty_fs) =
     \<lparr>persist_dir = Directory, persisted = []\<rparr> \<and>
   fs_after (embed_guidelines (example_env\<lparr>glob_pdf := []\<rparr>) empty_fs) \<noteq> empty_fs"
proof -
  note t = persist_dir_created_before_scan [of "example_env\<lparr>glob_pdf := []\<rparr>" empty_fs]
  have absent: "persist_dir empty_fs = Absent"
    by (simp add: empty_fs_def)
  have no_pdfs: "glob_pdf (example_env\<lparr>glob_pdf := []\<rparr>) = []"
    by simp
  have exit: "outcome (embed_guidelines (example_env\<lparr>glob_pdf := []\<rparr>) empty_fs) =
      SystemExit No_PDFs_found"
    using t no_pdfs example_scan_returns(2) [of "[]"] by blast
  then have after: "Glob_pdf
        \<in> set (trace (embed_guidelines (example_env\<lparr>glob_pdf := []\<rparr>) empty_fs)) \<and>
      fs_after (embed_guidelines (example_env\<lparr>glob_pdf := []\<rparr>) empty_fs) =
        empty_fs\<lparr>persist_dir := Directory\<rparr>"
    using t by blast
  then have dir: "persist_dir
      (fs_after (embed_guidelines (example_env\<lparr>glob_pdf := []\<rparr>) empty_fs)) = Directory"
    using t by blast
  have changed: "fs_after (embed_guidelines (example_env\<lparr>glob_pdf := []\<rparr>) empty_fs) \<noteq>
      empty_fs"
    using t exit absent by blast
  show ?thesis
    using no_pdfs example_scan_returns(2) [of "[]"] absent exit after dir changed
    by (simp add: empty_fs_def)
qed

lemma example_pdf_files:
  "pdf_files example_env =
     [codepoints ''a.pdf'', codepoints ''b.pdf'', codepoints ''c.pdf'', codepoints ''d.pdf'']"
  by (simp add: pdf_files_def example_env_def codepoints_def)

lemma example_extract:
  "extract_pages example_env (codepoints ''a.pdf'') =
     ([page ''Hello world'' (codepoints ''a.pdf'') 0, page [] (codepoints ''a.pdf'') 1],
      [Call_PyPDFLoader (codepoints ''a.pdf''), Print_ok (codepoints ''a.pdf'') 2 11])"
  "extract_pages example_env (codepoints ''b.pdf'') =
     ([page ''Scanned text'' (codepoints ''b.pdf'') 0],
      [Call_PyPDFLoader (codepoints ''b.pdf''), Call_PDFMinerLoader (codepoints ''b.pdf''),
       Print_ok (codepoints ''b.pdf'') 1 12])"
  "extract_pages example_env (codepoints ''c.pdf'') =
     ([],
      [Call_PyPDFLoader (codepoints ''c.pdf''),
       Warn_PyPDF (codepoints ''c.pdf'') (Exception (codepoints ''bad xref'')),
       Call_PDFMinerLoader (codepoints ''c.pdf''),
       Warn_PDFMiner (codepoints ''c.pdf'') (Exception (codepoints ''no /Root'')),
       Print_skip (codepoints ''c.pdf'')])"
  "extract_pages example_env (codepoints ''d.pdf'') =
     ([],
      [Call_PyPDFLoader (codepoints ''d.pdf''), Call_PDFMinerLoader (codepoints ''d.pdf''),
       Print_skip (codepoints ''d.pdf'')])"
  "extract_pages example_env (codepoints ''e.pdf'') =
     ([page '' '' (codepoints ''e.pdf'') 0],
      [Call_PyPDFLoader (codepoints ''e.pdf''), Call_PDFMinerLoader (codepoints ''e.pdf''),
       Warn_PDFMiner (codepoints ''e.pdf'') (Exception (codepoints ''no /Root'')),
       Print_ok (codepoints ''e.pdf'') 1 1])"
  by (simp_all add: example_defs)

lemma example_all_docs:
  "all_docs example_env =
     [page ''Hello world'' (codepoints ''a.pdf'') 0, page [] (codepoints ''a.pdf'') 1,
      page ''Scanned text'' (codepoints ''b.pdf'') 0]"
  by (simp add: all_docs_concat example_pdf_files example_extract)

lemma example_chunks:
  "chunks example_env =
     [page ''Hello world'' (codepoints ''a.pdf'') 0,
      page ''Scanned text'' (codepoints ''b.pdf'') 0]"
  unfolding chunks_def example_all_docs
  by (simp add: example_env_def reference_split_documents_def windows_def page_def
      codepoints_def strip_def isspace_def)


lemma try_PyPDF_glob_update:
  "try_PyPDF (env\<lparr>glob_pdf := g\<rparr>) p = try_PyPDF env p"
  by (simp add: try_PyPDF_def)

lemma try_PDFMiner_glob_update:
  "try_PDFMiner (env\<lparr>glob_pdf := g\<rparr>) p pages = try_PDFMiner env p pages"
  by (simp add: try_PDFMiner_def)

lemma extract_pages_glob_update [simp]:
  "extract_pages (env\<lparr>glob_pdf := g\<rparr>) p = extract_pages env p"
  by (simp add: extract_pages_def try_PyPDF_glob_update try_PDFMiner_glob_update)

lemma all_docs_glob_update:
  "all_docs (env\<lparr>glob_pdf := g\<rparr>) = concat (map (\<lambda>f. fst (extract_pages env f)) (sort g))"
  by (simp add: all_docs_concat pdf_files_def)



lemma example_completed:
  "glob_pdf example_env \<noteq> []" "all_docs example_env \<noteq> []" "chunks example_env \<noteq> []"
  by (simp_all add: example_all_docs example_chunks) (simp add: example_env_def)

lemma example_lines_return:
  "lines_return example_env ls" "lines_return (example_env\<lparr>glob_pdf := g\<rparr>) ls"
  by (simp_all add: lines_return_def example_env_def list_all_iff)

lemma completes_when_chunks:
  "scan_returns env fs0 \<Longrightarrow> lines_return env [44, 45, 49, 50, 51, 52] \<Longrightarrow>
     all_docs env \<noteq> [] \<Longrightarrow> chunks env \<noteq> [] \<Longrightarrow>
     outcome (embed_guidelines env fs0) = Completed (chunks env)"
  by (auto simp: embed_guidelines_scan split_and_persist_outcome Let_def all_docs_concat
      chunks_def)

lemma run_outcome:
  "outcome (embed_guidelines env fs0) = SystemExit No_text_extracted \<longleftrightarrow>
     scan_returns env fs0 \<and> glob_pdf env \<noteq> [] \<and> all_docs env = []"
  "outcome (embed_guidelines env fs0) = SystemExit Zero_chunks \<longleftrightarrow>
     scan_returns env fs0 \<and> lines_return env [44, 45] \<and> glob_pdf env \<noteq> [] \<and>
     all_docs env \<noteq> [] \<and> chunks env = []"
  "outcome (embed_guidelines env fs0) = Completed cs \<longleftrightarrow>
     scan_returns env fs0 \<and> lines_return env [44, 45, 49, 50, 51, 52] \<and>
     all_docs env \<noteq> [] \<and> cs \<noteq> [] \<and> cs = chunks env"
  "(\<exists>e. outcome (embed_guidelines env fs0) = Uncaught e) \<longleftrightarrow>
     \<not> scan_returns env fs0 \<or>
     (all_docs env \<noteq> [] \<and>
      (\<not> lines_return env [44, 45] \<or>
       (chunks env \<noteq> [] \<and> \<not> lines_return env [49, 50, 51, 52])))"
proof -
  show "outcome (embed_guidelines env fs0) = SystemExit No_text_extracted \<longleftrightarrow>
     scan_returns env fs0 \<and> glob_pdf env \<noteq> [] \<and> all_docs env = []"
    using embed_guidelines_no_scan [of env fs0] all_docs_no_pdfs [of env]
    by (cases "scan_returns env fs0")
      (auto simp: embed_guidelines_scan split_and_persist_outcome Let_def pdf_files_empty)
  show "outcome (embed_guidelines env fs0) = SystemExit Zero_chunks \<longleftrightarrow>
     scan_returns env fs0 \<and> lines_return env [44, 45] \<and> glob_pdf env \<noteq> [] \<and>
     all_docs env \<noteq> [] \<and> chunks env = []"
    using embed_guidelines_no_scan [of env fs0] all_docs_no_pdfs [of env]
    by (cases "scan_returns env fs0")
      (auto simp: embed_guidelines_scan split_and_persist_outcome Let_def pdf_files_empty
        chunks_def)
  show "outcome (embed_guidelines env fs0) = Completed cs \<longleftrightarrow>
     scan_returns env fs0 \<and> lines_return env [44, 45, 49, 50, 51, 52] \<and>
     all_docs env \<noteq> [] \<and> cs \<noteq> [] \<and> cs = chunks env"
    using embed_guidelines_no_scan [of env fs0] all_docs_no_pdfs [of env]
    by (cases "scan_returns env fs0")
      (auto simp: embed_guidelines_scan split_and_persist_outcome Let_def pdf_files_empty
        chunks_def)
  show "(\<exists>e. outcome (embed_guidelines env fs0) = Uncaught e) \<longleftrightarrow>
     \<not> scan_returns env fs0 \<or>
     (all_docs env \<noteq> [] \<and>
      (\<not> lines_return env [44, 45] \<or>
       (chunks env \<noteq> [] \<and> \<not> lines_return env [49, 50, 51, 52])))"
    using embed_guidelines_no_scan [of env fs0] all_docs_no_pdfs [of env]
    by (cases "scan_returns env fs0")
      (auto simp: embed_guidelines_scan split_and_persist_outcome Let_def pdf_files_empty
        chunks_def)
qed






lemma trace_loop_prefix:
  "scan_returns env fs0 \<Longrightarrow> pdf_files env \<noteq> [] \<Longrightarrow>
     \<exists>post. trace (embed_guidelines env fs0) =
       [Mkdir_PERSIST_DIR, Print_looking, Glob_pdf] @
       concat (map (\<lambda>f. snd (extract_pages env f)) (pdf_files env)) @ post"
  using split_and_persist_trace
    [of env "fs0\<lparr>persist_dir := Directory\<rparr>" "all_docs env"
      "[Mkdir_PERSIST_DIR, Print_looking, Glob_pdf] @
       concat (map (\<lambda>f. snd (extract_pages env f)) (pdf_files env))"]
  by (auto simp: embed_guidelines_scan Let_def)

text \<open>
  Claim C8. \<^verbatim>\<open>all_docs\<close> is the concatenation of the page lists of the files, in the
  order of \<^verbatim>\<open>pdf_files\<close>. For a file \<open>f\<close> between the files \<open>fs1\<close> and \<open>fs2\<close>: when its
  extraction begins the aggregate holds exactly the pages of \<open>fs1\<close>; its pages follow as
  one contiguous block, in the order \<open>extract_pages\<close> returned them, before the pages of
  \<open>fs2\<close>; and in the trace of a run that reaches the loop (the calls of lines 11, 13 and 14
  return) all events of \<open>f\<close> stand together, after those of \<open>fs1\<close> and before those of
  \<open>fs2\<close>.
\<close>

theorem aggregation_in_file_order:
  "all_docs env = concat (map (\<lambda>g. fst (extract_pages env g)) (pdf_files env)) \<and>
   (pdf_files env = fs1 @ f # fs2 \<longrightarrow>
      fst (extend_all env fs1 ([], [])) = concat (map (\<lambda>g. fst (extract_pages env g)) fs1) \<and>
      all_docs env =
        concat (map (\<lambda>g. fst (extract_pages env g)) fs1) @ fst (extract_pages env f) @
        concat (map (\<lambda>g. fst (extract_pages env g)) fs2)) \<and>
   (pdf_files env = fs1 @ f # fs2 \<and> scan_returns env fs0 \<longrightarrow>
      (\<exists>post. trace (embed_guidelines env fs0) =
        [Mkdir_PERSIST_DIR, Print_looking, Glob_pdf] @
        concat (map (\<lambda>g. snd (extract_pages env g)) fs1) @ snd (extract_pages env f) @
        concat (map (\<lambda>g. snd (extract_pages env g)) fs2) @ post))"
proof -
  have "all_docs env = concat (map (\<lambda>g. fst (extract_pages env g)) (pdf_files env))"
    by (rule all_docs_concat)
  moreover have "\<exists>post. trace (embed_guidelines env fs0) =
        [Mkdir_PERSIST_DIR, Print_looking, Glob_pdf] @
        concat (map (\<lambda>g. snd (extract_pages env g)) fs1) @ snd (extract_pages env f) @
        concat (map (\<lambda>g. snd (extract_pages env g)) fs2) @ post"
    if "pdf_files env = fs1 @ f # fs2" "scan_returns env fs0"
    using trace_loop_prefix [of env fs0] that by simp
  ultimately show ?thesis
    by (simp add: extend_all_concat)
qed

theorem aggregation_in_file_order_witness:
  "pdf_files example_env =
     [codepoints ''a.pdf''] @ codepoints ''b.pdf'' # [codepoints ''c.pdf'', codepoints ''d.pdf''] \<and>
   scan_returns example_env empty_fs \<and>
   all_docs example_env =
     [page ''Hello world'' (codepoints ''a.pdf'') 0, page [] (codepoints ''a.pdf'') 1] @
     [page ''Scanned text'' (codepoints ''b.pdf'') 0] @ [] \<and>
   (\<exists>post. trace (embed_guidelines example_env empty_fs) =
      [Mkdir_PERSIST_DIR, Print_looking, Glob_pdf] @
      [Call_PyPDFLoader (codepoints ''a.pdf''), Print_ok (codepoints ''a.pdf'') 2 11] @
      [Call_PyPDFLoader (codepoints ''b.pdf''), Call_PDFMinerLoader (codepoints ''b.pdf''),
       Print_ok (codepoints ''b.pdf'') 1 12] @
      [Call_PyPDFLoader (codepoints ''c.pdf''),
       Warn_PyPDF (codepoints ''c.pdf'') (Exception (codepoints ''bad xref'')),
       Call_PDFMinerLoader (codepoints ''c.pdf''),
       Warn_PDFMiner (codepoints ''c.pdf'') (Exception (codepoints ''no /Root'')),
       Print_skip (codepoints ''c.pdf''),
       Call_PyPDFLoader (codepoints ''d.pdf''), Call_PDFMinerLoader (codepoints ''d.pdf''),
       Print_skip (codepoints ''d.pdf'')] @ post)"
proof -
  have files: "pdf_files example_env =
     [codepoints ''a.pdf''] @ codepoints ''b.pdf'' # [codepoints ''c.pdf'', codepoints ''d.pdf'']"
    by (simp add: example_pdf_files)
  show ?thesis
    using files example_scan_returns(1)
      aggregation_in_file_order [of example_env "[codepoints ''a.pdf'']" "codepoints ''b.pdf''"
        "[codepoints ''c.pdf'', codepoints ''d.pdf'']" empty_fs]
    by (simp add: example_extract)
qed

lemma sort_removeAll: "sort (removeAll f xs) = removeAll f (sort xs)"
  by (simp add: removeAll_filter_not_eq filter_sort)

lemma concat_map_removeAll:
  "F f = [] \<Longrightarrow> concat (map F (removeAll f xs)) = concat (map F xs)"
  by (induction xs) auto

lemma all_docs_removeAll:
  "fst (extract_pages env f) = [] \<Longrightarrow>
     all_docs (env\<lparr>glob_pdf := removeAll f (glob_pdf env)\<rparr>) = all_docs env"
  by (simp add: all_docs_glob_update sort_removeAll concat_map_removeAll all_docs_concat
      pdf_files_def)

lemma chunks_removeAll:
  "fst (extract_pages env f) = [] \<Longrightarrow>
     chunks (env\<lparr>glob_pdf := removeAll f (glob_pdf env)\<rparr>) = chunks env"
  by (simp add: chunks_def all_docs_removeAll)

lemma scan_returns_glob_update [simp]:
  "scan_returns (env\<lparr>glob_pdf := g\<rparr>) fs0 = scan_returns env fs0"
  by (simp add: scan_returns_def)

lemma lines_return_glob_update [simp]:
  "lines_return (env\<lparr>glob_pdf := g\<rparr>) ls = lines_return env ls"
  by (simp add: lines_return_def)

lemma split_and_persist_glob_update [simp]:
  "split_and_persist (env\<lparr>glob_pdf := g\<rparr>) fs1 docs t1 = split_and_persist env fs1 docs t1"
  by (simp add: split_and_persist_eq Let_def cong: if_cong)

lemma persisted_run:
  "persisted (fs_after (embed_guidelines env fs0)) =
     persisted fs0 @
     (if scan_returns env fs0 \<and> all_docs env \<noteq> [] \<and> lines_return env [44, 45, 49, 50, 51]
      then chunks env else [])"
  using embed_guidelines_no_scan [of env fs0] all_docs_no_pdfs [of env]
  by (cases "scan_returns env fs0")
    (auto simp: embed_guidelines_scan split_and_persist_eq Let_def pdf_files_empty chunks_def
      lines_return_def)

lemma persisted_removeAll:
  "fst (extract_pages env f) = [] \<Longrightarrow>
     persisted (fs_after (embed_guidelines (env\<lparr>glob_pdf := removeAll f (glob_pdf env)\<rparr>) fs0)) =
     persisted (fs_after (embed_guidelines env fs0))"
  by (simp add: persisted_run all_docs_removeAll chunks_removeAll)

lemma final_pages_no_text:
  assumes "total_chars (fst (try_PyPDF env f)) = 0"
    and "case PDFMinerLoader_load env f of Inl e \<Rightarrow> True | Inr pages \<Rightarrow> total_chars pages = 0"
  shows "total_chars (final_pages env f) = 0"
proof -
  have "stripped_chars (fst (try_PyPDF env f)) = 0"
    using assms(1) stripped_le_total [of "fst (try_PyPDF env f)"] by simp
  then show ?thesis
    using assms by (simp add: final_pages_def try_PDFMiner_def split: sum.splits)
qed

lemma all_docs_origin:
  "d \<in> set (all_docs env) \<Longrightarrow>
     \<exists>g \<in> set (glob_pdf env). d \<in> set (final_pages env g) \<and> 0 < total_chars (final_pages env g)"
  by (auto simp: all_docs_concat set_pdf_files fst_extract_pages split: if_splits)

lemma total_chars_append: "total_chars (xs @ ys) = total_chars xs + total_chars ys"
  by (simp add: total_chars_def)

lemma total_chars_concat_pos:
  "concat (map (\<lambda>g. fst (extract_pages env g)) fs) \<noteq> [] \<Longrightarrow>
     0 < total_chars (concat (map (\<lambda>g. fst (extract_pages env g)) fs))"
  by (induction fs) (auto simp: total_chars_append fst_extract_pages split: if_splits)

lemma all_docs_total_pos: "all_docs env \<noteq> [] \<Longrightarrow> 0 < total_chars (all_docs env)"
  by (simp add: all_docs_concat total_chars_concat_pos)

text \<open>
  Claim C4. A file for which the primary loader yields no character (or raises) and the
  fallback loader yields no character (or raises) contributes no page: \<open>extract_pages\<close>
  returns the empty list for it, and the aggregated pages, the chunks and the persisted
  records of the run are those of the run without the file. Every aggregated page comes
  from another file, one whose page list has a positive character total, and the chunks of
  a completed run are the splitter's result on these pages, whose character total is
  positive.
\<close>

theorem no_text_file_contributes_nothing:
  assumes "total_chars (fst (try_PyPDF env f)) = 0"
    and "case PDFMinerLoader_load env f of Inl e \<Rightarrow> True | Inr pages \<Rightarrow> total_chars pages = 0"
  shows "fst (extract_pages env f) = [] \<and>
     all_docs (env\<lparr>glob_pdf := removeAll f (glob_pdf env)\<rparr>) = all_docs env \<and>
     chunks (env\<lparr>glob_pdf := removeAll f (glob_pdf env)\<rparr>) = chunks env \<and>
     persisted (fs_after (embed_guidelines (env\<lparr>glob_pdf := removeAll f (glob_pdf env)\<rparr>) fs0)) =
       persisted (fs_after (embed_guidelines env fs0)) \<and>
     (\<forall>d \<in> set (all_docs env). \<exists>g \<in> set (glob_pdf env).
        g \<noteq> f \<and> d \<in> set (final_pages env g) \<and> 0 < total_chars (final_pages env g)) \<and>
     (outcome (embed_guidelines env fs0) = Completed cs \<longrightarrow>
        cs = split_documents env 1000 150 (all_docs env) \<and> 0 < total_chars (all_docs env))"
proof -
  have zero: "total_chars (final_pages env f) = 0"
    using assms by (rule final_pages_no_text)
  then have empty: "fst (extract_pages env f) = []"
    by (simp add: fst_extract_pages)
  have origin: "\<exists>g \<in> set (glob_pdf env).
        g \<noteq> f \<and> d \<in> set (final_pages env g) \<and> 0 < total_chars (final_pages env g)"
    if "d \<in> set (all_docs env)" for d
    using all_docs_origin [OF that] zero by (metis less_numeral_extra(3))
  have completed: "cs = split_documents env 1000 150 (all_docs env) \<and> 0 < total_chars (all_docs env)"
    if "outcome (embed_guidelines env fs0) = Completed cs"
  proof -
    have "all_docs env \<noteq> []" "cs = chunks env"
      using that by (simp_all add: run_outcome(3))
    then show ?thesis
      by (simp add: chunks_def all_docs_total_pos)
  qed
  show ?thesis
    using empty origin completed
    by (simp add: all_docs_removeAll chunks_removeAll persisted_removeAll)
qed

lemma example_d_loaders:
  "total_chars (fst (try_PyPDF example_env (codepoints ''d.pdf''))) = 0"
  "case PDFMinerLoader_load example_env (codepoints ''d.pdf'') of
     Inl e \<Rightarrow> True | Inr pages \<Rightarrow> total_chars pages = 0"
  by (simp_all add: example_defs)

theorem no_text_file_contributes_nothing_witness:
  "total_chars (fst (try_PyPDF example_env (codepoints ''d.pdf''))) = 0 \<and>
   (case PDFMinerLoader_load example_env (codepoints ''d.pdf'') of
      Inl e \<Rightarrow> True | Inr pages \<Rightarrow> total_chars pages = 0) \<and>
   fst (extract_pages example_env (codepoints ''d.pdf'')) = [] \<and>
   all_docs (example_env\<lparr>glob_pdf := removeAll (codepoints ''d.pdf'') (glob_pdf example_env)\<rparr>) =
     all_docs example_env \<and>
   chunks (example_env\<lparr>glob_pdf := removeAll (codepoints ''d.pdf'') (glob_pdf example_env)\<rparr>) =
     chunks example_env \<and>
   persisted (fs_after (embed_guidelines
     (example_env\<lparr>glob_pdf := removeAll (codepoints ''d.pdf'') (glob_pdf example_env)\<rparr>)
     empty_fs)) =
     persisted (fs_after (embed_guidelines example_env empty_fs))"
  using example_d_loaders
    no_text_file_contributes_nothing [OF example_d_loaders, where ?fs0.0 = empty_fs and cs = "[]"]
  by - (elim conjE, intro conjI, assumption+)

lemma sort_mset_eq: "mset xs = mset ys \<Longrightarrow> sort xs = sort ys"
  using properties_for_sort [of "sort ys" xs] by simp

lemma pdf_files_permuted:
  "mset g = mset (glob_pdf env) \<Longrightarrow> pdf_files (env\<lparr>glob_pdf := g\<rparr>) = pdf_files env"
  using sort_mset_eq [of g "glob_pdf env"] by (simp add: pdf_files_def)

lemma all_docs_permuted:
  "mset g = mset (glob_pdf env) \<Longrightarrow> all_docs (env\<lparr>glob_pdf := g\<rparr>) = all_docs env"
  using pdf_files_permuted [of g env] by (simp add: all_docs_concat)

lemma chunks_permuted:
  "mset g = mset (glob_pdf env) \<Longrightarrow> chunks (env\<lparr>glob_pdf := g\<rparr>) = chunks env"
  using all_docs_permuted [of g env] by (simp add: chunks_def)

text \<open>
  Claim C7. The run is a function of its environment, and it does not depend on the order
  in which the directory enumeration yields the PDF paths: for the same loaders and
  splitter and the same paths in any order, \<^verbatim>\<open>pdf_files\<close>, \<^verbatim>\<open>all_docs\<close>, the chunks and the
  whole run (outcome, filesystem, trace) are the same.
\<close>

theorem run_independent_of_enumeration_order:
  assumes "mset g = mset (glob_pdf env)"
  shows "pdf_files (env\<lparr>glob_pdf := g\<rparr>) = pdf_files env \<and>
     all_docs (env\<lparr>glob_pdf := g\<rparr>) = all_docs env \<and>
     chunks (env\<lparr>glob_pdf := g\<rparr>) = chunks env \<and>
     embed_guidelines (env\<lparr>glob_pdf := g\<rparr>) fs0 = embed_guidelines env fs0"
proof -
  have files: "pdf_files (env\<lparr>glob_pdf := g\<rparr>) = pdf_files env"
    using assms by (rule pdf_files_permuted)
  have docs: "all_docs (env\<lparr>glob_pdf := g\<rparr>) = all_docs env"
    using assms by (rule all_docs_permuted)
  have cs: "chunks (env\<lparr>glob_pdf := g\<rparr>) = chunks env"
    using assms by (rule chunks_permuted)
  have "embed_guidelines (env\<lparr>glob_pdf := g\<rparr>) fs0 = embed_guidelines env fs0"
    by (simp add: embed_guidelines_eq files docs Let_def cong: if_cong)
  then show ?thesis
    using files docs cs by simp
qed

lemma example_permutation:
  "mset [codepoints ''a.pdf'', codepoints ''b.pdf'', codepoints ''c.pdf'', codepoints ''d.pdf''] =
   mset (glob_pdf example_env)"
  by (simp add: example_env_def add_mset_commute)

theorem run_independent_of_enumeration_order_witness:
  "mset [codepoints ''a.pdf'', codepoints ''b.pdf'', codepoints ''c.pdf'', codepoints ''d.pdf''] =
     mset (glob_pdf example_env) \<and>
   chunks (example_env\<lparr>glob_pdf :=
     [codepoints ''a.pdf'', codepoints ''b.pdf'', codepoints ''c.pdf'', codepoints ''d.pdf'']\<rparr>) =
     chunks example_env \<and>
   embed_guidelines (example_env\<lparr>glob_pdf :=
     [codepoints ''a.pdf'', codepoints ''b.pdf'', codepoints ''c.pdf'', codepoints ''d.pdf'']\<rparr>)
     empty_fs = embed_guidelines example_env empty_fs"
  using example_permutation
    run_independent_of_enumeration_order [OF example_permutation, of empty_fs]
  by - (elim conjE, intro conjI, assumption+)

lemma events_in_trace:
  assumes "f \<in> set (glob_pdf env)" and "scan_returns env fs0"
  shows "set (snd (extract_pages env f)) \<subseteq> set (trace (embed_guidelines env fs0))"
proof -
  have mem: "f \<in> set (pdf_files env)"
    using assms(1) by (simp add: set_pdf_files)
  then have "pdf_files env \<noteq> []"
    by auto
  then obtain post where "trace (embed_guidelines env fs0) =
       [Mkdir_PERSIST_DIR, Print_looking, Glob_pdf] @
       concat (map (\<lambda>f. snd (extract_pages env f)) (pdf_files env)) @ post"
    using trace_loop_prefix [OF assms(2)] by blast
  then show ?thesis
    using mem by auto
qed

lemma call_PyPDF_in_events: "Call_PyPDFLoader g \<in> set (snd (extract_pages env g))"
  by (simp add: snd_extract_pages try_PyPDF_def split: sum.splits)

lemma warn_PyPDF_in_events:
  "PyPDFLoader_load env f = Inl e \<Longrightarrow>
     Warn_PyPDF f e \<in> set (snd (extract_pages env f)) \<and>
     Call_PDFMinerLoader f \<in> set (snd (extract_pages env f))"
  by (simp add: fallback_iff) (simp add: snd_extract_pages try_PyPDF_def stripped_chars_def)

lemma warn_PDFMiner_in_events:
  "stripped_chars (fst (try_PyPDF env f)) = 0 \<Longrightarrow> PDFMinerLoader_load env f = Inl e' \<Longrightarrow>
     Warn_PDFMiner f e' \<in> set (snd (extract_pages env f)) \<and>
     final_pages env f = fst (try_PyPDF env f)"
  by (simp add: snd_extract_pages final_pages_def try_PDFMiner_def)

lemma both_raise_no_pages:
  "PyPDFLoader_load env f = Inl e \<Longrightarrow> PDFMinerLoader_load env f = Inl e' \<Longrightarrow>
     fst (extract_pages env f) = []"
  by (simp add: fst_extract_pages final_pages_def try_PDFMiner_def try_PyPDF_def
      stripped_chars_def total_chars_def)

lemma next_file_follows:
  assumes "pdf_files env = fs1 @ f # g # fs2" and "scan_returns env fs0"
  shows "\<exists>pre post. trace (embed_guidelines env fs0) =
     pre @ snd (extract_pages env f) @ Call_PyPDFLoader g # post"
proof -
  obtain t where t: "snd (extract_pages env g) = Call_PyPDFLoader g # t"
    using trace_try_PyPDF [of env g] by (auto simp: snd_extract_pages)
  have "pdf_files env \<noteq> []"
    using assms(1) by simp
  then obtain post where "trace (embed_guidelines env fs0) =
       [Mkdir_PERSIST_DIR, Print_looking, Glob_pdf] @
       concat (map (\<lambda>f. snd (extract_pages env f)) (pdf_files env)) @ post"
    using trace_loop_prefix [OF assms(2)] by blast
  then have "trace (embed_guidelines env fs0) =
       ([Mkdir_PERSIST_DIR, Print_looking, Glob_pdf] @
        concat (map (\<lambda>f. snd (extract_pages env f)) fs1)) @
       snd (extract_pages env f) @ Call_PyPDFLoader g #
       (t @ concat (map (\<lambda>f. snd (extract_pages env f)) fs2) @ post)"
    using assms(1) t by simp
  then show ?thesis
    by blast
qed

lemma split_and_persist_outcome_trace:
  "outcome (split_and_persist env fs1 docs t1) = outcome (split_and_persist env fs1 docs t1')"
  by (simp add: split_and_persist_eq Let_def)

lemma outcome_removeAll:
  assumes "fst (extract_pages env f) = []" and "removeAll f (glob_pdf env) \<noteq> []"
  shows "outcome (embed_guidelines (env\<lparr>glob_pdf := removeAll f (glob_pdf env)\<rparr>) fs0) =
     outcome (embed_guidelines env fs0)"
proof -
  have files: "pdf_files (env\<lparr>glob_pdf := removeAll f (glob_pdf env)\<rparr>) \<noteq> []"
    "pdf_files env \<noteq> []"
    using assms(2) by (auto simp: pdf_files_empty)
  show ?thesis
    using files all_docs_removeAll [OF assms(1)]
      split_and_persist_outcome_trace
        [of env "fs0\<lparr>persist_dir := Directory\<rparr>" "all_docs env"
          "[Mkdir_PERSIST_DIR, Print_looking, Glob_pdf] @
           concat (map (\<lambda>f. snd (extract_pages env f))
             (pdf_files (env\<lparr>glob_pdf := removeAll f (glob_pdf env)\<rparr>)))"
          "[Mkdir_PERSIST_DIR, Print_looking, Glob_pdf] @
           concat (map (\<lambda>f. snd (extract_pages env f)) (pdf_files env))"]
    by (simp add: embed_guidelines_eq Let_def)
qed

text \<open>
  Claim C6. For a file \<open>f\<close> of the scan, in a run that reaches the loop (the calls of lines
  11, 13 and 14 return): when the primary loader raises, the PyPDF warning is printed and
  the fallback loader is called; when the fallback loader raises, the PDFMiner warning is
  printed and the pages stay those of the primary loader. Extraction is attempted on every
  file of the scan, and the events of the file after \<open>f\<close> follow those of \<open>f\<close> directly.
  When both loaders raise on \<open>f\<close>, the pages and chunks of the run are those of the run
  without \<open>f\<close>, and so is its outcome when the scan has another file: the run completes
  whenever the pages of the files are not empty, the splitter returns chunks and the
  library calls of lines 44 to 52 return.
\<close>

theorem extraction_failure_is_local:
  assumes "f \<in> set (glob_pdf env)"
  shows
    "(scan_returns env fs0 \<longrightarrow>
        (PyPDFLoader_load env f = Inl e \<longrightarrow>
           Warn_PyPDF f e \<in> set (trace (embed_guidelines env fs0)) \<and>
           Call_PDFMinerLoader f \<in> set (trace (embed_guidelines env fs0))) \<and>
        (stripped_chars (fst (try_PyPDF env f)) = 0 \<and> PDFMinerLoader_load env f = Inl e' \<longrightarrow>
           Warn_PDFMiner f e' \<in> set (trace (embed_guidelines env fs0)) \<and>
           final_pages env f = fst (try_PyPDF env f)) \<and>
        (\<forall>g \<in> set (glob_pdf env).
           Call_PyPDFLoader g \<in> set (trace (embed_guidelines env fs0))) \<and>
        (pdf_files env = fs1 @ f # g # fs2 \<longrightarrow>
           (\<exists>pre post. trace (embed_guidelines env fs0) =
              pre @ snd (extract_pages env f) @ Call_PyPDFLoader g # post))) \<and>
     (PyPDFLoader_load env f = Inl e \<and> PDFMinerLoader_load env f = Inl e' \<longrightarrow>
        fst (extract_pages env f) = [] \<and>
        all_docs (env\<lparr>glob_pdf := removeAll f (glob_pdf env)\<rparr>) = all_docs env \<and>
        chunks (env\<lparr>glob_pdf := removeAll f (glob_pdf env)\<rparr>) = chunks env \<and>
        (removeAll f (glob_pdf env) \<noteq> [] \<longrightarrow>
           outcome (embed_guidelines (env\<lparr>glob_pdf := removeAll f (glob_pdf env)\<rparr>) fs0) =
           outcome (embed_guidelines env fs0)) \<and>
        (scan_returns env fs0 \<and> lines_return env [44, 45, 49, 50, 51, 52] \<and>
         all_docs env \<noteq> [] \<and> chunks env \<noteq> [] \<longrightarrow>
           outcome (embed_guidelines env fs0) = Completed (chunks env)))"
proof (intro conjI impI ballI)
  assume scan: "scan_returns env fs0"
  note sub = events_in_trace [OF assms scan]
  show "Warn_PyPDF f e \<in> set (trace (embed_guidelines env fs0))"
    if "PyPDFLoader_load env f = Inl e"
    using warn_PyPDF_in_events [OF that] sub by blast
  show "Call_PDFMinerLoader f \<in> set (trace (embed_guidelines env fs0))"
    if "PyPDFLoader_load env f = Inl e"
    using warn_PyPDF_in_events [OF that] sub by blast
  show "Warn_PDFMiner f e' \<in> set (trace (embed_guidelines env fs0))"
    if "stripped_chars (fst (try_PyPDF env f)) = 0 \<and> PDFMinerLoader_load env f = Inl e'"
    using warn_PDFMiner_in_events [of env f e'] that sub by auto
  show "final_pages env f = fst (try_PyPDF env f)"
    if "stripped_chars (fst (try_PyPDF env f)) = 0 \<and> PDFMinerLoader_load env f = Inl e'"
    using warn_PDFMiner_in_events [of env f e'] that by auto
  show "Call_PyPDFLoader g \<in> set (trace (embed_guidelines env fs0))"
    if "g \<in> set (glob_pdf env)" for g
    using events_in_trace [OF that scan] call_PyPDF_in_events [of g env] by blast
  show "\<exists>pre post. trace (embed_guidelines env fs0) =
           pre @ snd (extract_pages env f) @ Call_PyPDFLoader g # post"
    if "pdf_files env = fs1 @ f # g # fs2"
    using that scan by (rule next_file_follows)
next
  assume both: "PyPDFLoader_load env f = Inl e \<and> PDFMinerLoader_load env f = Inl e'"
  then show empty: "fst (extract_pages env f) = []"
    using both_raise_no_pages by blast
  show "all_docs (env\<lparr>glob_pdf := removeAll f (glob_pdf env)\<rparr>) = all_docs env"
    using empty by (rule all_docs_removeAll)
  show "chunks (env\<lparr>glob_pdf := removeAll f (glob_pdf env)\<rparr>) = chunks env"
    using empty by (rule chunks_removeAll)
  show "outcome (embed_guidelines (env\<lparr>glob_pdf := removeAll f (glob_pdf env)\<rparr>) fs0) =
      outcome (embed_guidelines env fs0)"
    if "removeAll f (glob_pdf env) \<noteq> []"
    using empty that by (rule outcome_removeAll)
  show "outcome (embed_guidelines env fs0) = Completed (chunks env)"
    if "scan_returns env fs0 \<and> lines_return env [44, 45, 49, 50, 51, 52] \<and>
      all_docs env \<noteq> [] \<and> chunks env \<noteq> []"
    using that by (simp add: completes_when_chunks)
qed

lemma example_c:
  "codepoints ''c.pdf'' \<in> set (glob_pdf example_env)"
  "PyPDFLoader_load example_env (codepoints ''c.pdf'') = Inl (Exception (codepoints ''bad xref''))"
  "PDFMinerLoader_load example_env (codepoints ''c.pdf'') =
     Inl (Exception (codepoints ''no /Root''))"
  "stripped_chars (fst (try_PyPDF example_env (codepoints ''c.pdf''))) = 0"
  "pdf_files example_env =
     [codepoints ''a.pdf'', codepoints ''b.pdf''] @ codepoints ''c.pdf'' #
     codepoints ''d.pdf'' # []"
  "removeAll (codepoints ''c.pdf'') (glob_pdf example_env) \<noteq> []"
  by (simp_all add: example_pdf_files) (simp_all add: example_defs)

theorem extraction_failure_is_local_witness:
  "codepoints ''c.pdf'' \<in> set (glob_pdf example_env) \<and>
   scan_returns example_env empty_fs \<and>
   PyPDFLoader_load example_env (codepoints ''c.pdf'') =
     Inl (Exception (codepoints ''bad xref'')) \<and>
   PDFMinerLoader_load example_env (codepoints ''c.pdf'') =
     Inl (Exception (codepoints ''no /Root'')) \<and>
   Warn_PyPDF (codepoints ''c.pdf'') (Exception (codepoints ''bad xref''))
     \<in> set (trace (embed_guidelines example_env empty_fs)) \<and>
   Warn_PDFMiner (codepoints ''c.pdf'') (Exception (codepoints ''no /Root''))
     \<in> set (trace (embed_guidelines example_env empty_fs)) \<and>
   (\<exists>pre post. trace (embed_guidelines example_env empty_fs) =
      pre @ snd (extract_pages example_env (codepoints ''c.pdf'')) @
      Call_PyPDFLoader (codepoints ''d.pdf'') # post) \<and>
   fst (extract_pages example_env (codepoints ''c.pdf'')) = [] \<and>
   chunks (example_env\<lparr>glob_pdf := removeAll (codepoints ''c.pdf'') (glob_pdf example_env)\<rparr>) =
     chunks example_env \<and>
   removeAll (codepoints ''c.pdf'') (glob_pdf example_env) \<noteq> [] \<and>
   outcome (embed_guidelines
     (example_env\<lparr>glob_pdf := removeAll (codepoints ''c.pdf'') (glob_pdf example_env)\<rparr>)
     empty_fs) = outcome (embed_guidelines example_env empty_fs) \<and>
   outcome (embed_guidelines example_env empty_fs) = Completed (chunks example_env)"
proof -
  note t = extraction_failure_is_local [OF example_c(1),
      where e = "Exception (codepoints ''bad xref'')"
        and e' = "Exception (codepoints ''no /Root'')"
        and ?fs0.0 = empty_fs
        and ?fs1.0 = "[codepoints ''a.pdf'', codepoints ''b.pdf'']"
        and g = "codepoints ''d.pdf''" and ?fs2.0 = "[]"]
  note loop = t [THEN conjunct1, THEN mp, OF example_scan_returns(1)]
  note both = conjI [OF example_c(2) example_c(3)]
  note last = t [THEN conjunct2, THEN mp, OF both]
  show ?thesis
    using example_c(1,2,3,6) example_scan_returns(1)
      loop [THEN conjunct1, THEN mp, OF example_c(2), THEN conjunct1]
      loop [THEN conjunct2, THEN conjunct1, THEN mp,
        OF conjI [OF example_c(4) example_c(3)], THEN conjunct1]
      loop [THEN conjunct2, THEN conjunct2, THEN conjunct2, THEN mp, OF example_c(5)]
      last [THEN conjunct1]
      last [THEN conjunct2, THEN conjunct2, THEN conjunct1]
      last [THEN conjunct2, THEN conjunct2, THEN conjunct2, THEN conjunct1, THEN mp,
        OF example_c(6)]
      last [THEN conjunct2, THEN conjunct2, THEN conjunct2, THEN conjunct2, THEN mp,
        OF conjI [OF example_scan_returns(1) conjI [OF example_lines_return(1)
          conjI [OF example_completed(2) example_completed(3)]]]]
    by - (intro conjI, assumption+)
qed

lemmas split_defs =
  reference_split_documents_def windows_def page_def codepoints_def strip_def isspace_def

lemma one_page_all_docs:
  "all_docs one_page_env = [page ''Hello world'' (codepoints ''x.pdf'') 0]"
  by (simp add: all_docs_concat pdf_files_def one_page_env_def extract_pages_def try_PyPDF_def
      try_PDFMiner_def stripped_chars_def total_chars_def page_def codepoints_def strip_def
      isspace_def)

lemma two_page_all_docs:
  "all_docs two_page_env =
     [page ''Hello '' (codepoints ''x.pdf'') 0, page ''world'' (codepoints ''x.pdf'') 1]"
  by (simp add: all_docs_concat pdf_files_def two_page_env_def extract_pages_def try_PyPDF_def
      try_PDFMiner_def stripped_chars_def total_chars_def page_def codepoints_def strip_def
      isspace_def)

lemma one_page_chunks:
  "chunks one_page_env = [page ''Hello world'' (codepoints ''x.pdf'') 0]"
  unfolding chunks_def one_page_all_docs
  by (simp add: one_page_env_def split_defs)

lemma two_page_chunks:
  "chunks two_page_env =
     [page ''Hello'' (codepoints ''x.pdf'') 0, page ''world'' (codepoints ''x.pdf'') 1]"
  unfolding chunks_def two_page_all_docs
  by (simp add: two_page_env_def split_defs)

lemma page_totals:
  "total_chars (all_docs one_page_env) = 11" "total_chars (all_docs two_page_env) = 11"
  unfolding one_page_all_docs two_page_all_docs
  by (simp_all add: total_chars_def page_def codepoints_def)

lemma fixture_returns:
  "scan_returns one_page_env empty_fs" "lines_return one_page_env ls"
  "scan_returns two_page_env empty_fs" "lines_return two_page_env ls"
  by (simp_all add: scan_returns_def lines_return_def one_page_env_def two_page_env_def
      empty_fs_def list_all_iff)

subsection \<open>The number of chunks\<close>

text \<open>
  The splitter is a library function and a parameter here. With a splitter that, as the
  library's \<^verbatim>\<open>split_documents\<close> does, splits every page on its own, the number of chunks
  is not a function of the total character count: the same eleven characters give one
  chunk as one page and two chunks as two pages.
\<close>

theorem chunk_count_by_total_chars_counterexample:
  "total_chars (all_docs one_page_env) = 11 \<and>
   total_chars (all_docs two_page_env) = 11 \<and>
   outcome (embed_guidelines one_page_env empty_fs) =
     Completed [page ''Hello world'' (codepoints ''x.pdf'') 0] \<and>
   outcome (embed_guidelines two_page_env empty_fs) =
     Completed [page ''Hello'' (codepoints ''x.pdf'') 0, page ''world'' (codepoints ''x.pdf'') 1] \<and>
   \<not> (\<exists>count :: nat \<Rightarrow> nat \<Rightarrow> nat \<Rightarrow> nat.
        length (chunks one_page_env) = count (total_chars (all_docs one_page_env)) 1000 150 \<and>
        length (chunks two_page_env) = count (total_chars (all_docs two_page_env)) 1000 150)"
proof -
  have "outcome (embed_guidelines one_page_env empty_fs) = Completed (chunks one_page_env)"
    by (rule completes_when_chunks)
      (simp_all add: one_page_all_docs one_page_chunks fixture_returns)
  moreover have
    "outcome (embed_guidelines two_page_env empty_fs) = Completed (chunks two_page_env)"
    by (rule completes_when_chunks)
      (simp_all add: two_page_all_docs two_page_chunks fixture_returns)
  moreover have "length (chunks one_page_env) = 1" "length (chunks two_page_env) = 2"
    by (simp_all add: one_page_chunks two_page_chunks)
  ultimately show ?thesis
    by (simp add: page_totals one_page_chunks two_page_chunks)
qed

lemma no_split_call_in_events: "Call_split_documents c ov \<notin> set (snd (extract_pages env p))"
  by (simp add: snd_extract_pages try_PyPDF_def try_PDFMiner_def split: sum.splits)

lemma split_and_persist_split_call:
  "Call_split_documents c ov \<in> set (trace (split_and_persist env fs1 docs t1)) \<Longrightarrow>
     Call_split_documents c ov \<in> set t1 \<or> c = 1000 \<and> ov = 150"
  by (auto simp: split_and_persist_eq Let_def split: if_splits)

lemma split_call_constants:
  "Call_split_documents c ov \<in> set (trace (embed_guidelines env fs0)) \<Longrightarrow> c = 1000 \<and> ov = 150"
  using split_and_persist_split_call
    [of c ov env "fs0\<lparr>persist_dir := Directory\<rparr>" "all_docs env"
      "[Mkdir_PERSIST_DIR, Print_looking, Glob_pdf] @
       concat (map (\<lambda>f. snd (extract_pages env f)) (pdf_files env))"]
  by (auto simp: embed_guidelines_eq Let_def no_split_call_in_events split: if_splits)

lemma completed_chunks:
  assumes "outcome (embed_guidelines env fs0) = Completed cs"
  shows "cs = split_documents env 1000 150 (all_docs env) \<and>
     Call_split_documents 1000 150 \<in> set (trace (embed_guidelines env fs0))"
proof -
  have facts: "scan_returns env fs0" "lines_return env [44, 45, 49, 50, 51, 52]"
    "all_docs env \<noteq> []" "cs = chunks env"
    using assms by (simp_all add: run_outcome(3))
  then have "pdf_files env \<noteq> []"
    using all_docs_no_pdfs [of env] by (auto simp: pdf_files_empty)
  then have "Call_split_documents 1000 150 \<in> set (trace (embed_guidelines env fs0))"
    using facts by (simp add: embed_guidelines_scan split_and_persist_eq Let_def lines_return_def)
  then show ?thesis
    using facts(4) by (simp add: chunks_def)
qed

text \<open>
  Claim C2, as amended. The splitter is only ever called with chunk size 1000 and overlap
  150, and the chunks of a completed run are its result on the aggregated page list: the
  number of chunks is a function of the splitter and of the ordered page list, so two runs
  with the same splitter and the same aggregated pages have the same number of chunks.
\<close>

theorem chunk_count_function_of_pages:
  "(Call_split_documents c ov \<in> set (trace (embed_guidelines env fs0)) \<longrightarrow>
      c = 1000 \<and> ov = 150) \<and>
   (outcome (embed_guidelines env fs0) = Completed cs \<longrightarrow>
      Call_split_documents 1000 150 \<in> set (trace (embed_guidelines env fs0)) \<and>
      cs = split_documents env 1000 150 (all_docs env) \<and>
      length cs = length (split_documents env 1000 150 (all_docs env))) \<and>
   (split_documents env' = split_documents env \<and> all_docs env' = all_docs env \<longrightarrow>
      chunks env' = chunks env \<and> length (chunks env') = length (chunks env))"
  using split_call_constants [of c ov env fs0] completed_chunks [of env fs0 cs]
  by (simp add: chunks_def)

lemma example_run_completed:
  "outcome (embed_guidelines example_env empty_fs) = Completed (chunks example_env)"
  using example_completed
  by (simp add: completes_when_chunks example_scan_returns example_lines_return)

lemma example_sorted_env:
  "split_documents (example_env\<lparr>glob_pdf := pdf_files example_env\<rparr>) =
     split_documents example_env"
  "all_docs (example_env\<lparr>glob_pdf := pdf_files example_env\<rparr>) = all_docs example_env"
  using all_docs_permuted [of "pdf_files example_env" example_env]
  by (simp_all add: pdf_files_def)

theorem chunk_count_function_of_pages_witness:
  "outcome (embed_guidelines example_env empty_fs) = Completed (chunks example_env) \<and>
   Call_split_documents 1000 150 \<in> set (trace (embed_guidelines example_env empty_fs)) \<and>
   chunks example_env = split_documents example_env 1000 150 (all_docs example_env) \<and>
   length (chunks example_env) = 2 \<and>
   split_documents (example_env\<lparr>glob_pdf := pdf_files example_env\<rparr>) =
     split_documents example_env \<and>
   all_docs (example_env\<lparr>glob_pdf := pdf_files example_env\<rparr>) = all_docs example_env \<and>
   length (chunks (example_env\<lparr>glob_pdf := pdf_files example_env\<rparr>)) =
     length (chunks example_env)"
proof -
  note t = chunk_count_function_of_pages [where env = example_env and ?fs0.0 = empty_fs
      and cs = "chunks example_env" and c = 1000 and ov = 150
      and env' = "example_env\<lparr>glob_pdf := pdf_files example_env\<rparr>"]
  note run = t [THEN conjunct2, THEN conjunct1, THEN mp, OF example_run_completed]
  note same = t [THEN conjunct2, THEN conjunct2, THEN mp,
      OF conjI [OF example_sorted_env(1) example_sorted_env(2)]]
  have two: "length (chunks example_env) = 2"
    by (simp add: example_chunks)
  show ?thesis
    using example_run_completed run [THEN conjunct1] run [THEN conjunct2, THEN conjunct1]
      two example_sorted_env same [THEN conjunct2]
    by - (intro conjI, assumption+)
qed

end
